theory Spec2Isabelle
  imports Main "HOL-Library.Sublist"
begin

text \<open>A model of \<^verbatim>\<open>PearsonLaTeXBuilder\<close> (\<^verbatim>\<open>source/_exts/pearson/builder.py\<close>): every method
  is a function from the builder to the events it causes and the value it returns or the
  exception it raises; what Sphinx, docutils and the template engine do is a parameter.\<close>

section \<open>Strings, numbers and paths\<close>

type_synonym docname = string
type_synonym path = string

definition digit_char :: "nat \<Rightarrow> char" where
  "digit_char d = ''0123456789'' ! d"

text \<open>\<^verbatim>\<open>str(n)\<close> for a non-negative integer: its decimal digits.\<close>

fun str_nat :: "nat \<Rightarrow> string" where
  "str_nat n = (if n < 10 then [digit_char n] else str_nat (n div 10) @ [digit_char (n mod 10)])"

declare str_nat.simps [simp del]

definition str_int :: "int \<Rightarrow> string" where
  "str_int i = (if i < 0 then CHR ''-'' # str_nat (nat (- i)) else str_nat (nat i))"

text \<open>\<^verbatim>\<open>'{:0Wd}'.format(n)\<close> for \<open>n \<ge> 0\<close>: the decimal digits, padded on the left
  with zeros up to the minimum width \<open>W\<close>.\<close>

definition format_d :: "nat \<Rightarrow> nat \<Rightarrow> string" where
  "format_d w n = replicate (w - length (str_nat n)) CHR ''0'' @ str_nat n"

text \<open>The two name formats of \<^verbatim>\<open>write\<close>, \<^verbatim>\<open>'chap{:02d}'\<close> and its kin, are a literal
  prefix and a minimum width.\<close>

type_synonym name_fmt = "string \<times> nat"

fun format_name :: "name_fmt \<Rightarrow> nat \<Rightarrow> string" where
  "format_name (pre, w) num = pre @ format_d w num"

text \<open>\<^verbatim>\<open>'%s' % v\<close> where the source uses it.\<close>

definition str_opt :: "string option \<Rightarrow> string" where
  "str_opt v = (case v of None \<Rightarrow> ''None'' | Some s \<Rightarrow> s)"

text \<open>\<^verbatim>\<open>repr\<close> of a string: between single quotes, or between double quotes when the
  string holds a single quote and no double quote; the backslash and the quote in use are
  escaped with a backslash, tab, newline and carriage return are written \<^verbatim>\<open>\t\<close>, \<^verbatim>\<open>\n\<close>
  and \<^verbatim>\<open>\r\<close>, and the other control characters in hexadecimal. The bytes of a character
  beyond ASCII are kept as they are.\<close>

definition hex_digit :: "nat \<Rightarrow> char" where
  "hex_digit d = ''0123456789abcdef'' ! d"

definition repr_char :: "char \<Rightarrow> char \<Rightarrow> string" where
  "repr_char quote c =
     (if c = quote \<or> c = CHR 0x5C then [CHR 0x5C, c]
      else if c = CHR 0x09 then [CHR 0x5C, CHR ''t'']
      else if c = CHR 0x0A then [CHR 0x5C, CHR ''n'']
      else if c = CHR 0x0D then [CHR 0x5C, CHR ''r'']
      else if (of_char c :: nat) < 32 \<or> (of_char c :: nat) = 127
      then [CHR 0x5C, CHR ''x'', hex_digit (of_char c div 16), hex_digit (of_char c mod 16)]
      else [c])"

definition repr_str :: "string \<Rightarrow> string" where
  "repr_str s =
     (let quote = (if CHR 0x27 \<in> set s \<and> CHR 0x22 \<notin> set s then CHR 0x22 else CHR 0x27)
      in [quote] @ concat (map (repr_char quote) s) @ [quote])"

text \<open>\<^verbatim>\<open>os.path.join\<close> and \<^verbatim>\<open>os.path.basename\<close> on POSIX paths.\<close>

definition path_join :: "path \<Rightarrow> path \<Rightarrow> path" where
  "path_join a b =
     (if b \<noteq> [] \<and> hd b = CHR ''/'' then b
      else if a = [] \<or> last a = CHR ''/'' then a @ b
      else a @ ''/'' @ b)"

definition basename :: "path \<Rightarrow> path" where
  "basename p = rev (takeWhile (\<lambda>c. c \<noteq> CHR ''/'') (rev p))"

text \<open>\<^verbatim>\<open>docname.startswith(subdir)\<close>.\<close>

definition startswith :: "string \<Rightarrow> string \<Rightarrow> bool" where
  "startswith s pre = prefix pre s"

section \<open>Document trees\<close>

text \<open>The nodes of a docutils tree that the builder looks at: table-of-contents
  markers (with their \<^verbatim>\<open>maxdepth\<close> and their \<^verbatim>\<open>caption\<close>: \<open>None\<close> when the node has no
  such key, \<open>Some v\<close> when it has it with the value \<open>v\<close>, which is \<^verbatim>\<open>None\<close> or a string),
  pending cross-references (with \<^verbatim>\<open>refdocname\<close> and
  \<^verbatim>\<open>refsectname\<close>), text, and every other element with its attributes and children.\<close>

datatype node =
    Text string
  | Toctree int "string option option"
  | Pending_xref docname string
  | Element string "(string \<times> string) list" "node list"

text \<open>\<^verbatim>\<open>nodes.emphasis(text, text)\<close>: a text element, with a text child unless the text
  is empty.\<close>

definition emphasis :: "string \<Rightarrow> node" where
  "emphasis s = Element ''emphasis'' [] (if s = [] then [] else [Text s])"

text \<open>\<^verbatim>\<open>traverse(addnodes.toctree)\<close> and \<^verbatim>\<open>traverse(addnodes.pending_xref)\<close>, in document
  order.\<close>

fun traverse_toctree :: "node \<Rightarrow> node list" where
  "traverse_toctree (Toctree m c) = [Toctree m c]"
| "traverse_toctree (Element t a cs) = concat (map traverse_toctree cs)"
| "traverse_toctree (Text s) = []"
| "traverse_toctree (Pending_xref d s) = []"

fun traverse_pending :: "node \<Rightarrow> node list" where
  "traverse_pending (Pending_xref d s) = [Pending_xref d s]"
| "traverse_pending (Element t a cs) = concat (map traverse_pending cs)"
| "traverse_pending (Text s) = []"
| "traverse_pending (Toctree m c) = []"

text \<open>A document: its children, the \<^verbatim>\<open>docname\<close> and \<^verbatim>\<open>tocdepth\<close> attributes, and the two
  settings the builder stores on it.\<close>

record doctree =
  body :: "node list"
  tree_docname :: "docname option"
  tocdepth :: "int option"
  contentsname :: "string option"
  settings_docname :: "docname option"

definition doc_toctrees :: "doctree \<Rightarrow> node list" where
  "doc_toctrees t = concat (map traverse_toctree (body t))"

definition doc_pending :: "doctree \<Rightarrow> node list" where
  "doc_pending t = concat (map traverse_pending (body t))"

section \<open>Configuration, template context, errors and events\<close>

text \<open>The configuration values the builder reads. \<^verbatim>\<open>latex_top_sectionlevel\<close> is read and
  assigned by \<^verbatim>\<open>check_options\<close> although no such configuration value is declared: the
  outer \<open>None\<close> stands for an attribute that does not exist.\<close>

record config =
  latex_toplevel_sectioning :: "string option"
  latex_top_sectionlevel :: "string option option"
  latex_use_parts :: bool
  pearson_title :: string
  pearson_subtitle :: string
  pearson_author :: string
  pearson_chapters :: "docname list"
  latex_appendices :: "docname list"
  latex_additional_files :: "path list"
  latex_logo :: "path option"

text \<open>\<^verbatim>\<open>global_context\<close>; the key \<^verbatim>\<open>external_docs\<close> is absent until \<^verbatim>\<open>write\<close> sets it.\<close>

record template_context =
  title :: string
  subtitle :: string
  author :: string
  chapter_names :: "string list"
  appendices :: "string list"
  external_docs :: "string list option"

text \<open>An exception raised by the template engine: its message, and its \<^verbatim>\<open>lineno\<close>
  attribute when the exception class has one.\<close>

datatype exn = Exn (message: string) (lineno: "int option")

datatype error =
    NoUri
  | SphinxError string
  | AttributeError string
  | IOError string
  | TemplateError exn

datatype event =
    Info string
  | Warn string
  | Deprecation string
  | Render string template_context
  | FileWrite path string
  | DocWrite path doctree
  | CopyFile path path
  | CopyStatic path path

text \<open>What a method does: the events up to its return or its raise, and the value
  returned or the exception raised.\<close>

type_synonym 'a outcome = "event list \<times> (error + 'a)"

definition andthen :: "'a outcome \<Rightarrow> ('a \<Rightarrow> 'b outcome) \<Rightarrow> 'b outcome" where
  "andthen m f =
     (case m of
        (es, Inl e) \<Rightarrow> (es, Inl e)
      | (es, Inr a) \<Rightarrow> (case f a of (es', r) \<Rightarrow> (es @ es', r)))"

section \<open>The host framework and the builder\<close>

text \<open>The operations of Sphinx, docutils and the template engine that the builder calls.
  \<^verbatim>\<open>get_doctree\<close> raises for a document the environment cannot load;
  \<^verbatim>\<open>inline_all_toctrees\<close> returns the stitched tree and the documents it added to the
  set it was given; \<^verbatim>\<open>resolve_references\<close> is given the builder's
  \<^verbatim>\<open>get_relative_uri\<close>.\<close>

record host =
  all_docs :: "docname set"
  get_doctree :: "docname \<Rightarrow> doctree option"
  inline_all_toctrees :: "docname set \<Rightarrow> docname \<Rightarrow> doctree \<Rightarrow> doctree \<times> docname list"
  resolve_references ::
    "(docname \<Rightarrow> docname \<Rightarrow> error + string) \<Rightarrow> docname \<Rightarrow> doctree \<Rightarrow> doctree"
  post_process_images :: "(path \<times> path) list \<Rightarrow> doctree \<Rightarrow> (path \<times> path) list"
  render :: "string \<Rightarrow> template_context \<Rightarrow> exn + string"
  get_stylesheet :: string
  theme_dirchain :: "path list"
  copy_static_entry :: "path \<Rightarrow> path \<Rightarrow> path set \<Rightarrow> path set"

text \<open>The attributes of \<^verbatim>\<open>PearsonLaTeXBuilder\<close>. \<^verbatim>\<open>titles\<close> is read by
  \<^verbatim>\<open>assemble_doctree\<close> and assigned nowhere in the class: \<open>None\<close> stands for the
  attribute that does not exist. \<^verbatim>\<open>theme\<close> is the directory chain of the theme object,
  \<open>None\<close> for the class default.\<close>

record builder =
  config :: config
  srcdir :: path
  confdir :: path
  outdir :: path
  docnames :: "docname set"
  document_data :: "docname list"
  titles :: "(string \<times> string) list option"
  images :: "(path \<times> path) list"
  theme :: "path list option"

section \<open>Initialisation\<close>

definition truthy :: "string option \<Rightarrow> bool" where
  "truthy v = (case v of None \<Rightarrow> False | Some s \<Rightarrow> s \<noteq> [])"

definition check_options :: "builder \<Rightarrow> builder outcome" where
  "check_options b =
     andthen
       (if latex_toplevel_sectioning (config b)
             \<notin> {None, Some ''part'', Some ''chapter'', Some ''section''}
        then (case latex_top_sectionlevel (config b) of
                None \<Rightarrow> ([], Inl (AttributeError ''No such config value: latex_top_sectionlevel''))
              | Some v \<Rightarrow>
                  ([Warn (''invalid latex_toplevel_sectioning, ignored: '' @ str_opt v)],
                   Inr (b\<lparr>config := (config b)\<lparr>latex_top_sectionlevel := Some None\<rparr>\<rparr>)))
        else ([], Inr b))
       (\<lambda>b. if latex_use_parts (config b)
            then (Deprecation (''latex_use_parts will be removed at Sphinx-1.5. ''
                               @ ''Use latex_toplevel_sectioning instead.'')
                  # (if truthy (latex_toplevel_sectioning (config b))
                     then [Warn ''latex_use_parts conflicts with latex_toplevel_sectioning, ignored.'']
                     else []),
                  Inr b)
            else ([], Inr b))"

definition init_templates :: "host \<Rightarrow> builder \<Rightarrow> builder" where
  "init_templates h b = b\<lparr>theme := Some (theme_dirchain h)\<rparr>"

definition init :: "host \<Rightarrow> builder \<Rightarrow> builder outcome" where
  "init h b =
     andthen
       ([Info ''loading builder from Pearson extension''],
        Inr (init_templates h (b\<lparr>docnames := {}, document_data := []\<rparr>)))
       check_options"

section \<open>Target URIs\<close>

text \<open>The parameter \<^verbatim>\<open>typ\<close> of both methods is not used and is left out.\<close>

definition get_target_uri :: "builder \<Rightarrow> docname \<Rightarrow> error + string" where
  "get_target_uri b d = (if d \<notin> docnames b then Inl NoUri else Inr (CHR ''%'' # d))"

definition get_relative_uri :: "builder \<Rightarrow> docname \<Rightarrow> docname \<Rightarrow> error + string" where
  "get_relative_uri b from_doc to_doc = get_target_uri b to_doc"

section \<open>Chapters\<close>

fun init_chapters_loop :: "host \<Rightarrow> docname list \<Rightarrow> builder \<Rightarrow> event list \<times> builder" where
  "init_chapters_loop h [] b = ([], b)"
| "init_chapters_loop h (chap # rest) b =
     (if chap \<notin> all_docs h
      then (case init_chapters_loop h rest b of
              (es, b') \<Rightarrow>
                (Warn (''\"pearson_chapters\" config value references unknown document '' @ chap)
                 # es, b'))
      else init_chapters_loop h rest (b\<lparr>document_data := document_data b @ [chap]\<rparr>))"

definition init_chapters :: "host \<Rightarrow> builder \<Rightarrow> event list \<times> builder" where
  "init_chapters h b =
     (let chapters = pearson_chapters (config b) in
      if chapters = []
      then ([Warn (''no \"pearson_chapters\" config value found; no documents ''
                   @ ''will be written'')], b)
      else init_chapters_loop h chapters b)"

section \<open>Templates and the stylesheet\<close>

text \<open>\<^verbatim>\<open>_render_template\<close>. The handler formats \<^verbatim>\<open>err.lineno\<close> before it logs: for an
  exception without that attribute the attribute lookup raises in the handler, and
  neither the log line nor the \<^verbatim>\<open>raise\<close> is reached.\<close>

definition render_template ::
  "host \<Rightarrow> string \<Rightarrow> path \<Rightarrow> template_context \<Rightarrow> string outcome" where
  "render_template h template_name file_name ctx =
     (case render h template_name ctx of
        Inl err \<Rightarrow>
          (case lineno err of
             None \<Rightarrow>
               ([Info (''writing '' @ file_name), Render template_name ctx],
                Inl (AttributeError ''lineno''))
           | Some n \<Rightarrow>
               ([Info (''writing '' @ file_name), Render template_name ctx,
                 Info (''Failed to render template '' @ template_name @ '': '' @ message err
                       @ '' at '' @ str_int n)],
                Inl (TemplateError err)))
      | Inr content \<Rightarrow>
          ([Info (''writing '' @ file_name), Render template_name ctx,
            FileWrite file_name content],
           Inr content))"

text \<open>\<^verbatim>\<open>_write_pygments_stylesheet\<close>, with the header it puts before the host's
  stylesheet.\<close>

definition pygments_header :: string where
  "pygments_header =
     [CHR 0x0A] @ ''%% generated by Pearson extension for Sphinx'' @ [CHR 0x0A]
     @ ''%%'' @ [CHR 0x0A]
     @ ''%% These are the code syntax-highlighting directives'' @ [CHR 0x0A]
     @ ''%% produced by pygments using the theme for the'' @ [CHR 0x0A]
     @ ''%% document'' @ [CHR 0x0A]
     @ ''%%'' @ [CHR 0x0A]"

definition write_pygments_stylesheet :: "host \<Rightarrow> path \<Rightarrow> string outcome" where
  "write_pygments_stylesheet h file_name =
     (let content = pygments_header @ get_stylesheet h in
      ([Info (''writing '' @ file_name), FileWrite file_name content], Inr content))"

section \<open>Assembling one unit\<close>

fun maxdepth :: "node \<Rightarrow> int" where
  "maxdepth (Toctree m c) = m"
| "maxdepth (Text s) = 0"
| "maxdepth (Pending_xref d s) = 0"
| "maxdepth (Element t a cs) = 0"

text \<open>The loop of \<^verbatim>\<open>get_contentsname\<close>: it stops at the first node that has the key
  \<^verbatim>\<open>caption\<close> and returns what the key holds.\<close>

fun first_caption :: "node list \<Rightarrow> string option" where
  "first_caption [] = None"
| "first_caption (Toctree m (Some v) # rest) = v"
| "first_caption (n # rest) = first_caption rest"

definition get_contentsname :: "host \<Rightarrow> docname \<Rightarrow> string option outcome" where
  "get_contentsname h indexfile =
     (case get_doctree h indexfile of
        None \<Rightarrow> ([], Inl (IOError indexfile))
      | Some tree \<Rightarrow> ([], Inr (first_caption (doc_toctrees tree))))"

text \<open>\<^verbatim>\<open>new_document('<latex output>')\<close>.\<close>

definition new_document :: doctree where
  "new_document =
     \<lparr>body = [], tree_docname = None, tocdepth = None, contentsname = None,
      settings_docname = None\<rparr>"

fun append_appendices :: "host \<Rightarrow> docname list \<Rightarrow> doctree \<Rightarrow> doctree outcome" where
  "append_appendices h [] largetree = ([], Inr largetree)"
| "append_appendices h (d # rest) largetree =
     (case get_doctree h d of
        None \<Rightarrow> ([], Inl (IOError d))
      | Some appendix \<Rightarrow>
          append_appendices h rest
            (largetree\<lparr>body := body largetree
                                 @ [Element ''document'' [(''docname'', d)] (body appendix)]\<rparr>))"

text \<open>The inner loop over \<^verbatim>\<open>self.titles\<close>: the first pair whose directory is a prefix of
  the target's name gives the suffix, and the loop stops there.\<close>

fun title_suffix :: "(string \<times> string) list \<Rightarrow> docname \<Rightarrow> node list" where
  "title_suffix [] d = []"
| "title_suffix ((subdir, t) # rest) d =
     (if startswith d subdir then [Text '' (in '', emphasis t, Text '')'']
      else title_suffix rest d)"

text \<open>\<^verbatim>\<open>pendingnode.replace_self(newnodes)\<close> for every pending node of the tree.\<close>

fun replace_pending :: "(string \<times> string) list \<Rightarrow> node \<Rightarrow> node list" where
  "replace_pending ts (Pending_xref d s) = emphasis s # title_suffix ts d"
| "replace_pending ts (Element t a cs) = [Element t a (concat (map (replace_pending ts) cs))]"
| "replace_pending ts (Text s) = [Text s]"
| "replace_pending ts (Toctree m c) = [Toctree m c]"

text \<open>The loop over the pending nodes reads \<^verbatim>\<open>self.titles\<close> in its body, so the
  attribute is looked up only when there is a pending node.\<close>

definition resolve_pending :: "builder \<Rightarrow> doctree \<Rightarrow> doctree outcome" where
  "resolve_pending b largetree =
     (if doc_pending largetree = [] then ([], Inr largetree)
      else (case titles b of
              None \<Rightarrow> ([], Inl (AttributeError ''titles''))
            | Some ts \<Rightarrow>
                ([], Inr (largetree\<lparr>body := concat (map (replace_pending ts) (body largetree))\<rparr>))))"

definition assemble_doctree ::
  "host \<Rightarrow> builder \<Rightarrow> docname \<Rightarrow> bool \<Rightarrow> docname list \<Rightarrow> (doctree \<times> builder) outcome" where
  "assemble_doctree h b indexfile toctree_only apps =
     (let b1 = b\<lparr>docnames := set (indexfile # apps)\<rparr> in
      andthen ([Info (indexfile @ '' '')], Inr ()) (\<lambda>_.
      case get_doctree h indexfile of
        None \<Rightarrow> ([], Inl (IOError indexfile))
      | Some t \<Rightarrow>
          (let tree = t\<lparr>tree_docname := Some indexfile\<rparr>;
               tree = (if toctree_only
                       then new_document\<lparr>body :=
                              [Element ''section'' []
                                 (Element ''title'' [] [Text ''<Set title in conf.py>'']
                                  # doc_toctrees tree)]\<rparr>
                       else tree);
               (inlined, added) = inline_all_toctrees h (docnames b1) indexfile tree;
               b2 = b1\<lparr>docnames := docnames b1 \<union> set added\<rparr>;
               largetree = inlined\<lparr>tree_docname := Some indexfile\<rparr>
           in andthen (append_appendices h apps largetree) (\<lambda>largetree.
              andthen ([Info [], Info ''resolving references...''],
                       Inr (resolve_references h (get_relative_uri b2) indexfile largetree))
                (\<lambda>largetree.
              andthen (resolve_pending b2 largetree) (\<lambda>largetree.
                ([], Inr (largetree, b2))))))))"

section \<open>Writing\<close>

text \<open>\<^verbatim>\<open>process_doc\<close>, the closure of \<^verbatim>\<open>write\<close>. The writer and its settings object are
  the host's; of the settings only the two fields assigned here are kept.\<close>

definition process_doc ::
  "host \<Rightarrow> builder \<Rightarrow> name_fmt \<Rightarrow> nat \<Rightarrow> docname \<Rightarrow> (string \<times> builder) outcome" where
  "process_doc h b name_fmt num d =
     (let name = format_name name_fmt num in
      andthen ([Info (''writing '' @ d @ '' to '' @ name @ ''.tex ... '')], Inr ()) (\<lambda>_.
      case get_doctree h d of
        None \<Rightarrow> ([], Inl (IOError d))
      | Some t \<Rightarrow>
          (let toctrees = doc_toctrees t;
               depth = (case toctrees of
                          [] \<Rightarrow> None
                        | tt # _ \<Rightarrow> (if maxdepth tt > 0 then Some (maxdepth tt) else None))
           in andthen (assemble_doctree h b d False []) (\<lambda>(doctree, b').
              let doctree = doctree\<lparr>tocdepth := depth\<rparr>;
                  b'' = b'\<lparr>images := post_process_images h (images b') doctree\<rparr>
              in andthen (get_contentsname h d) (\<lambda>cn.
                 let doctree = doctree\<lparr>contentsname := cn, settings_docname := Some d\<rparr>
                 in ([DocWrite (path_join (outdir b) (name @ ''.tex'')) doctree, Info ''done''],
                     Inr (name, b'')))))))"

text \<open>The two loops of \<^verbatim>\<open>write\<close>, over \<^verbatim>\<open>enumerate(..., 1)\<close>.\<close>

fun write_chapters ::
  "host \<Rightarrow> name_fmt \<Rightarrow> (nat \<times> docname) list \<Rightarrow> builder \<times> template_context
   \<Rightarrow> (builder \<times> template_context) outcome" where
  "write_chapters h fmt [] bc = ([], Inr bc)"
| "write_chapters h fmt ((chap_num, d) # rest) (b, ctx) =
     andthen (process_doc h b fmt chap_num d) (\<lambda>(name, b').
       write_chapters h fmt rest (b', ctx\<lparr>chapter_names := chapter_names ctx @ [name]\<rparr>))"

fun write_appendices ::
  "host \<Rightarrow> name_fmt \<Rightarrow> (nat \<times> docname) list \<Rightarrow> builder \<times> template_context
   \<Rightarrow> (builder \<times> template_context) outcome" where
  "write_appendices h fmt [] bc = ([], Inr bc)"
| "write_appendices h fmt ((app_num, d) # rest) (b, ctx) =
     andthen (process_doc h b fmt app_num d) (\<lambda>(name, b').
       write_appendices h fmt rest (b', ctx\<lparr>appendices := appendices ctx @ [name]\<rparr>))"

definition "write" :: "host \<Rightarrow> builder \<Rightarrow> builder outcome" where
  "write h b0 =
     (case init_chapters h b0 of (es0, b) \<Rightarrow>
      andthen (es0, Inr ()) (\<lambda>_.
      andthen (write_pygments_stylesheet h (path_join (outdir b) ''pygments.sty'')) (\<lambda>_.
      let global_context =
            \<lparr>title = pearson_title (config b), subtitle = pearson_subtitle (config b),
             author = pearson_author (config b), chapter_names = [], appendices = [],
             external_docs = None\<rparr>
      in
      andthen (render_template h ''half-title.tex'' (path_join (outdir b) ''half-title.tex'')
                 global_context) (\<lambda>_.
      andthen (render_template h ''title.tex'' (path_join (outdir b) ''title.tex'')
                 global_context) (\<lambda>_.
      let chap_name_fmt = (''chap'', if length (document_data b) \<ge> 100 then 3 else 2) in
      andthen (write_chapters h chap_name_fmt (enumerate 1 (document_data b))
                 (b, global_context))
        (\<lambda>(b, global_context).
      let app_name_fmt =
            (''app'', if length (latex_appendices (config b)) \<ge> 100 then 3 else 2) in
      andthen (write_appendices h app_name_fmt (enumerate 1 (latex_appendices (config b)))
                 (b, global_context))
        (\<lambda>(b, global_context).
      let global_context =
            global_context\<lparr>external_docs :=
              Some (chapter_names global_context @ appendices global_context)\<rparr>
      in
      andthen (render_template h ''book.tex'' (path_join (outdir b) ''book.tex'')
                 global_context) (\<lambda>_.
      ([], Inr b)))))))))"

section \<open>Finishing\<close>

text \<open>The file system is the set of paths of its files. \<^verbatim>\<open>copyfile\<close> raises when the
  source is not there.\<close>

definition copyfile :: "path \<Rightarrow> path \<Rightarrow> path set \<Rightarrow> (path set) outcome" where
  "copyfile source dest fs =
     (if source \<in> fs then ([CopyFile source dest], Inr (insert dest fs))
      else ([], Inl (IOError source)))"

fun copy_images :: "builder \<Rightarrow> (path \<times> path) list \<Rightarrow> path set \<Rightarrow> (path set) outcome" where
  "copy_images b [] fs = ([], Inr fs)"
| "copy_images b ((src, dest) # rest) fs =
     andthen ([Info ('' '' @ src)], Inr ()) (\<lambda>_.
     andthen (copyfile (path_join (srcdir b) src) (path_join (outdir b) dest) fs)
       (copy_images b rest))"

fun copy_additional_files :: "builder \<Rightarrow> path list \<Rightarrow> path set \<Rightarrow> (path set) outcome" where
  "copy_additional_files b [] fs = ([], Inr fs)"
| "copy_additional_files b (filename # rest) fs =
     andthen ([Info ('' '' @ filename)], Inr ()) (\<lambda>_.
     andthen (copyfile (path_join (confdir b) filename)
                (path_join (outdir b) (basename filename)) fs)
       (copy_additional_files b rest))"

fun copy_static_entries :: "host \<Rightarrow> builder \<Rightarrow> path list \<Rightarrow> path set \<Rightarrow> (path set) outcome" where
  "copy_static_entries h b [] fs = ([], Inr fs)"
| "copy_static_entries h b (entry # rest) fs =
     andthen ([Info ('' '' @ entry), CopyStatic entry (outdir b)],
              Inr (copy_static_entry h entry (outdir b) fs))
       (copy_static_entries h b rest)"

text \<open>The four blocks of \<^verbatim>\<open>finish\<close>, in the order of the source: images, additional
  files, the logo, the theme's static files.\<close>

definition finish_images :: "builder \<Rightarrow> path set \<Rightarrow> (path set) outcome" where
  "finish_images b fs =
     (if images b \<noteq> []
      then andthen ([Info ''copying images...''], Inr ()) (\<lambda>_.
           andthen (copy_images b (images b) fs) (\<lambda>fs. ([Info []], Inr fs)))
      else ([], Inr fs))"

definition finish_additional_files :: "builder \<Rightarrow> path set \<Rightarrow> (path set) outcome" where
  "finish_additional_files b fs =
     (if latex_additional_files (config b) \<noteq> []
      then andthen ([Info ''copying additional files...''], Inr ()) (\<lambda>_.
           andthen (copy_additional_files b (latex_additional_files (config b)) fs)
             (\<lambda>fs. ([Info []], Inr fs)))
      else ([], Inr fs))"

definition finish_logo :: "builder \<Rightarrow> path set \<Rightarrow> (path set) outcome" where
  "finish_logo b fs =
     (case latex_logo (config b) of
        None \<Rightarrow> ([], Inr fs)
      | Some logo \<Rightarrow>
          if logo = [] then ([], Inr fs)
          else (let logobase = basename logo;
                    logotarget = path_join (outdir b) logobase
                in if path_join (confdir b) logo \<notin> fs
                   then ([], Inl (SphinxError (''logo file '' @ repr_str logo
                                              @ '' does not exist'')))
                   else if logotarget \<notin> fs
                   then copyfile (path_join (confdir b) logo) logotarget fs
                   else ([], Inr fs)))"

definition finish_static :: "host \<Rightarrow> builder \<Rightarrow> path set \<Rightarrow> (path set) outcome" where
  "finish_static h b fs =
     (case theme b of
        None \<Rightarrow> ([], Inr fs)
      | Some dirchain \<Rightarrow>
          andthen ([Info ''copying static files...''], Inr ()) (\<lambda>_.
            copy_static_entries h b
              (map (\<lambda>themepath. path_join themepath ''static'') (rev dirchain)) fs))"

definition finish :: "host \<Rightarrow> builder \<Rightarrow> path set \<Rightarrow> (path set) outcome" where
  "finish h b fs =
     andthen (finish_images b fs) (\<lambda>fs.
     andthen (finish_additional_files b fs) (\<lambda>fs.
     andthen (finish_logo b fs) (\<lambda>fs.
     andthen (finish_static h b fs) (\<lambda>fs.
     ([Info ''done''], Inr fs)))))"

section \<open>What a run leaves behind\<close>

text \<open>The warnings, template renderings and files of a trace, in order; a written
  document is named by its path and the \<^verbatim>\<open>docname\<close> stored in its settings.\<close>

datatype action =
    Warned string
  | Rendered string template_context
  | FileWritten path
  | DocWritten path "docname option"

fun action_of :: "event \<Rightarrow> action list" where
  "action_of (Warn s) = [Warned s]"
| "action_of (Render n c) = [Rendered n c]"
| "action_of (FileWrite p s) = [FileWritten p]"
| "action_of (DocWrite p t) = [DocWritten p (settings_docname t)]"
| "action_of (Info s) = []"
| "action_of (Deprecation s) = []"
| "action_of (CopyFile p q) = []"
| "action_of (CopyStatic p q) = []"

definition actions :: "event list \<Rightarrow> action list" where
  "actions es = concat (map action_of es)"

fun doc_written :: "action \<Rightarrow> (path \<times> docname option) list" where
  "doc_written (DocWritten p d) = [(p, d)]"
| "doc_written (Warned s) = []"
| "doc_written (Rendered n c) = []"
| "doc_written (FileWritten p) = []"

definition docs_written :: "event list \<Rightarrow> (path \<times> docname option) list" where
  "docs_written es = concat (map doc_written (actions es))"

fun warning_of :: "event \<Rightarrow> string list" where
  "warning_of (Warn s) = [s]"
| "warning_of (Render n c) = []"
| "warning_of (FileWrite p s) = []"
| "warning_of (DocWrite p t) = []"
| "warning_of (Info s) = []"
| "warning_of (Deprecation s) = []"
| "warning_of (CopyFile p q) = []"
| "warning_of (CopyStatic p q) = []"

definition warnings :: "event list \<Rightarrow> string list" where
  "warnings es = concat (map warning_of es)"

fun is_static_copy :: "event \<Rightarrow> bool" where
  "is_static_copy (CopyStatic p q) = True"
| "is_static_copy (Warn s) = False"
| "is_static_copy (Render n c) = False"
| "is_static_copy (FileWrite p s) = False"
| "is_static_copy (DocWrite p t) = False"
| "is_static_copy (Info s) = False"
| "is_static_copy (Deprecation s) = False"
| "is_static_copy (CopyFile p q) = False"

definition unknown_chapter_msg :: "docname \<Rightarrow> string" where
  "unknown_chapter_msg c = ''\"pearson_chapters\" config value references unknown document '' @ c"

definition no_chapters_msg :: string where
  "no_chapters_msg = ''no \"pearson_chapters\" config value found; no documents will be written''"

text \<open>The chapter and appendix formats chosen by \<^verbatim>\<open>write\<close> for a list of the given length,
  the path of the file a number is written to, and the template contexts at the start
  and at the end of \<^verbatim>\<open>write\<close>.\<close>

definition chap_fmt :: "nat \<Rightarrow> name_fmt" where
  "chap_fmt L = (''chap'', if 100 \<le> L then 3 else 2)"

definition app_fmt :: "nat \<Rightarrow> name_fmt" where
  "app_fmt M = (''app'', if 100 \<le> M then 3 else 2)"

definition doc_path :: "builder \<Rightarrow> name_fmt \<Rightarrow> nat \<Rightarrow> path" where
  "doc_path b fmt i = path_join (outdir b) (format_name fmt i @ ''.tex'')"

definition start_context :: "builder \<Rightarrow> template_context" where
  "start_context b =
     \<lparr>title = pearson_title (config b), subtitle = pearson_subtitle (config b),
      author = pearson_author (config b), chapter_names = [], appendices = [],
      external_docs = None\<rparr>"

definition book_context :: "builder \<Rightarrow> string list \<Rightarrow> string list \<Rightarrow> template_context" where
  "book_context b cns ans =
     \<lparr>title = pearson_title (config b), subtitle = pearson_subtitle (config b),
      author = pearson_author (config b), chapter_names = cns, appendices = ans,
      external_docs = Some (cns @ ans)\<rparr>"

text \<open>The chapters \<^verbatim>\<open>init_chapters\<close> keeps and the warnings it logs.\<close>

definition known_chapters :: "host \<Rightarrow> builder \<Rightarrow> docname list" where
  "known_chapters h b = filter (\<lambda>c. c \<in> all_docs h) (pearson_chapters (config b))"

definition chapter_warnings :: "host \<Rightarrow> builder \<Rightarrow> string list" where
  "chapter_warnings h b =
     (if pearson_chapters (config b) = [] then [no_chapters_msg]
      else map unknown_chapter_msg
             (filter (\<lambda>c. c \<notin> all_docs h) (pearson_chapters (config b))))"

section \<open>An example project\<close>

definition example_tree :: "string \<Rightarrow> doctree" where
  "example_tree s =
     \<lparr>body = [Element ''section'' [] [Text s]], tree_docname = None, tocdepth = None,
      contentsname = None, settings_docname = None\<rparr>"

definition example_host :: host where
  "example_host =
     \<lparr>all_docs = {''intro'', ''usage'', ''history''},
      get_doctree = (\<lambda>d. if d \<in> {''intro'', ''usage'', ''history''}
                          then Some (example_tree d) else None),
      inline_all_toctrees = (\<lambda>docnameset d t. (t, [])),
      resolve_references = (\<lambda>uri d t. t),
      post_process_images = (\<lambda>ims t. ims),
      render = (\<lambda>n c. Inr n),
      get_stylesheet = [],
      theme_dirchain = [''themes/pearson''],
      copy_static_entry = (\<lambda>entry out fs. fs)\<rparr>"

definition example_config :: config where
  "example_config =
     \<lparr>latex_toplevel_sectioning = None, latex_top_sectionlevel = None,
      latex_use_parts = False, pearson_title = ''Title'', pearson_subtitle = ''Subtitle'',
      pearson_author = ''Author'', pearson_chapters = [''intro'', ''usage''],
      latex_appendices = [''history''], latex_additional_files = [], latex_logo = None\<rparr>"

definition example_builder :: builder where
  "example_builder =
     \<lparr>config = example_config, srcdir = ''doc'', confdir = ''doc'', outdir = ''out'',
      docnames = {}, document_data = [], titles = None, images = [], theme = None\<rparr>"

section \<open>Auxiliary notions\<close>

text \<open>The result of a method, mapped.\<close>

definition map_outcome :: "('a \<Rightarrow> 'b) \<Rightarrow> 'a outcome \<Rightarrow> 'b outcome" where
  "map_outcome g m = (fst m, map_sum id g (snd m))"

text \<open>What \<^verbatim>\<open>write\<close> does after the call of \<^verbatim>\<open>init_chapters\<close>.\<close>

definition write_documents :: "host \<Rightarrow> builder \<Rightarrow> builder outcome" where
  "write_documents h b =
      andthen (write_pygments_stylesheet h (path_join (outdir b) ''pygments.sty'')) (\<lambda>_.
      let global_context =
            \<lparr>title = pearson_title (config b), subtitle = pearson_subtitle (config b),
             author = pearson_author (config b), chapter_names = [], appendices = [],
             external_docs = None\<rparr>
      in
      andthen (render_template h ''half-title.tex'' (path_join (outdir b) ''half-title.tex'')
                 global_context) (\<lambda>_.
      andthen (render_template h ''title.tex'' (path_join (outdir b) ''title.tex'')
                 global_context) (\<lambda>_.
      let chap_name_fmt = (''chap'', if length (document_data b) \<ge> 100 then 3 else 2) in
      andthen (write_chapters h chap_name_fmt (enumerate 1 (document_data b))
                 (b, global_context))
        (\<lambda>(b, global_context).
      let app_name_fmt =
            (''app'', if length (latex_appendices (config b)) \<ge> 100 then 3 else 2) in
      andthen (write_appendices h app_name_fmt (enumerate 1 (latex_appendices (config b)))
                 (b, global_context))
        (\<lambda>(b, global_context).
      let global_context =
            global_context\<lparr>external_docs :=
              Some (chapter_names global_context @ appendices global_context)\<rparr>
      in
      andthen (render_template h ''book.tex'' (path_join (outdir b) ''book.tex'')
                 global_context) (\<lambda>_.
      ([], Inr b)))))))"

text \<open>The example project with a chapter the environment does not know.\<close>

definition example_builder_unknown :: builder where
  "example_builder_unknown =
     example_builder\<lparr>config := example_config\<lparr>pearson_chapters := [''intro'', ''missing'', ''usage'']\<rparr>\<rparr>"

text \<open>The destinations and the sources of the copies \<^verbatim>\<open>finish\<close> makes before it looks
  for the logo.\<close>

definition copy_targets :: "builder \<Rightarrow> path set" where
  "copy_targets b =
     (\<lambda>(src, dest). path_join (outdir b) dest) ` set (images b)
     \<union> (\<lambda>filename. path_join (outdir b) (basename filename))
         ` set (latex_additional_files (config b))"

definition copy_sources :: "builder \<Rightarrow> path set" where
  "copy_sources b =
     (\<lambda>(src, dest). path_join (srcdir b) src) ` set (images b)
     \<union> (\<lambda>filename. path_join (confdir b) filename) ` set (latex_additional_files (config b))"

text \<open>\<^verbatim>\<open>finish\<close> up to the logo: the copies of the images and of the additional files,
  and the file system they leave.\<close>

definition files_at_logo :: "builder \<Rightarrow> path set \<Rightarrow> (path set) outcome" where
  "files_at_logo b fs = andthen (finish_images b fs) (finish_additional_files b)"

text \<open>The example project with an image, an additional file and a logo that is not
  there.\<close>

definition example_builder_logo :: builder where
  "example_builder_logo =
     example_builder\<lparr>config := example_config\<lparr>latex_logo := Some ''logo.png'',
                                                 latex_additional_files := [''extra/style.sty'']\<rparr>,
                     images := [(''fig/a.png'', ''a.png'')],
                     theme := Some [''themes/pearson'']\<rparr>"

definition example_files :: "path set" where
  "example_files = {''doc/fig/a.png'', ''doc/extra/style.sty''}"

text \<open>The example project with an appendix the environment does not know, a host that
  loads any document, a chapter with a cross-reference left pending, a template engine
  that raises without a line number, and an invalid sectioning option.\<close>

definition example_builder_appendix :: builder where
  "example_builder_appendix =
     example_builder\<lparr>config := example_config\<lparr>latex_appendices := [''missing'']\<rparr>\<rparr>"

definition lenient_host :: host where
  "lenient_host = example_host\<lparr>get_doctree := (\<lambda>d. Some (example_tree d))\<rparr>"

definition xref_tree :: doctree where
  "xref_tree =
     \<lparr>body = [Element ''paragraph'' []
                [Text ''see '', Pending_xref ''other/page'' ''Other section'']],
      tree_docname = None, tocdepth = None, contentsname = None, settings_docname = None\<rparr>"

definition xref_host :: host where
  "xref_host = example_host\<lparr>get_doctree := (\<lambda>d. if d = ''intro'' then Some xref_tree
                                                 else get_doctree example_host d)\<rparr>"

definition failing_host :: host where
  "failing_host =
     example_host\<lparr>render := (\<lambda>n c. if n = ''book.tex''
                                     then Inl (Exn ''no such template'' None) else Inr n)\<rparr>"

definition example_builder_sectioning :: builder where
  "example_builder_sectioning =
     example_builder\<lparr>config := example_config\<lparr>latex_toplevel_sectioning := Some ''subsection''\<rparr>\<rparr>"

text \<open>The tree \<^verbatim>\<open>assemble_doctree\<close> hands to \<^verbatim>\<open>inline_all_toctrees\<close>, and the example host
  inlining the chapter \<^verbatim>\<open>usage\<close> into the chapter \<^verbatim>\<open>intro\<close>.\<close>

definition index_tree :: "doctree \<Rightarrow> docname \<Rightarrow> bool \<Rightarrow> doctree" where
  "index_tree t indexfile toctree_only =
     (let tree = t\<lparr>tree_docname := Some indexfile\<rparr> in
      if toctree_only
      then new_document\<lparr>body :=
             [Element ''section'' []
                (Element ''title'' [] [Text ''<Set title in conf.py>''] # doc_toctrees tree)]\<rparr>
      else tree)"

definition inlining_host :: host where
  "inlining_host =
     example_host\<lparr>inline_all_toctrees :=
                    (\<lambda>docnameset d t. (t, if d = ''intro'' then [''usage''] else []))\<rparr>"

text \<open>The number a string of decimal digits stands for.\<close>

definition digit_value :: "char \<Rightarrow> nat" where
  "digit_value c = of_char c - 48"

definition digits_value :: "string \<Rightarrow> nat" where
  "digits_value s = foldl (\<lambda>a c. 10 * a + digit_value c) 0 s"

text \<open>A host that loads the given documents, renders every template and leaves no
  cross-reference pending.\<close>

definition host_serves :: "host \<Rightarrow> docname set \<Rightarrow> bool" where
  "host_serves h ds \<longleftrightarrow>
     (\<forall>d \<in> ds. get_doctree h d \<noteq> None)
   \<and> (\<forall>n c. \<exists>s. render h n c = Inr s)
   \<and> (\<forall>u i t. doc_pending (resolve_references h u i t) = [])"

section \<open>Sequencing and projections\<close>

lemma andthen_Inr:
  "andthen m f = (es, Inr y) \<longleftrightarrow>
     (\<exists>es1 a es2. m = (es1, Inr a) \<and> f a = (es2, Inr y) \<and> es = es1 @ es2)"
  by (auto simp: andthen_def split: prod.splits sum.splits)

lemma actions_simps [simp]:
  "actions [] = []"
  "actions (e # es) = action_of e @ actions es"
  "actions (es @ es') = actions es @ actions es'"
  by (simp_all add: actions_def)

lemma docs_written_simps [simp]:
  "docs_written [] = []"
  "docs_written (e # es) = concat (map doc_written (action_of e)) @ docs_written es"
  "docs_written (es @ es') = docs_written es @ docs_written es'"
  by (simp_all add: docs_written_def)

lemma warnings_simps [simp]:
  "warnings [] = []"
  "warnings (e # es) = warning_of e @ warnings es"
  "warnings (es @ es') = warnings es @ warnings es'"
  by (simp_all add: warnings_def)

lemma actions_Warn_map [simp]: "actions (map (\<lambda>c. Warn (f c)) cs) = map (\<lambda>c. Warned (f c)) cs"
  by (induction cs) simp_all

lemma map_case_fst: "map (\<lambda>(i, d). F i) ps = map F (map fst ps)"
  by (induction ps) auto

lemma map_enumerate_fst:
  "map (\<lambda>(i, d). F i) (enumerate (Suc 0) xs) = map F [Suc 0..<Suc (length xs)]"
proof -
  have "map fst (enumerate (Suc 0) xs) = [Suc 0..<Suc 0 + length xs]"
    by (rule map_fst_enumerate)
  also have "Suc 0 + length xs = Suc (length xs)"
    by simp
  finally show ?thesis
    by (simp only: map_case_fst)
qed

section \<open>The builder after init\<close>

lemma check_options_Inr:
  "check_options b = (es, Inr b') \<Longrightarrow>
     document_data b' = document_data b \<and> docnames b' = docnames b \<and> theme b' = theme b"
  by (auto simp: check_options_def andthen_Inr split: if_splits option.splits)

text \<open>\<^verbatim>\<open>init\<close> leaves no document names and no chapters.\<close>

lemma init_Inr:
  "init h b0 = (es, Inr b) \<Longrightarrow>
     document_data b = [] \<and> docnames b = {} \<and> theme b = Some (theme_dirchain h)"
  by (auto simp: init_def andthen_Inr init_templates_def dest!: check_options_Inr)

section \<open>One document\<close>

lemma get_contentsname_Inr: "get_contentsname h d = (es, Inr cn) \<Longrightarrow> es = []"
  by (auto simp: get_contentsname_def split: option.splits)

lemma resolve_pending_Inr: "resolve_pending b t = (es, Inr t') \<Longrightarrow> es = []"
  by (auto simp: resolve_pending_def split: option.splits if_splits)

lemma append_appendices_Inr: "append_appendices h ds t = (es, Inr t') \<Longrightarrow> es = []"
  by (induction ds arbitrary: t) (auto split: option.splits)

lemma assemble_doctree_Inr:
  assumes "assemble_doctree h b i tonly apps = (es, Inr (t, b'))"
  shows "actions es = [] \<and> b' = b\<lparr>docnames := docnames b'\<rparr>"
  using assms
  by (auto simp: assemble_doctree_def Let_def andthen_Inr split: option.splits prod.splits
      dest!: append_appendices_Inr resolve_pending_Inr)

lemma process_doc_Inr:
  assumes "process_doc h b fmt num d = (es, Inr (name, b'))"
  shows "name = format_name fmt num
       \<and> actions es = [DocWritten (doc_path b fmt num) (Some d)]
       \<and> outdir b' = outdir b \<and> config b' = config b \<and> document_data b' = document_data b
       \<and> titles b' = titles b"
proof -
  from assms obtain t es1 lt b1 es2 cn where
    a: "assemble_doctree h b d False [] = (es1, Inr (lt, b1))" and
    c: "get_contentsname h d = (es2, Inr cn)" and
    n: "name = format_name fmt num" and
    b': "b' = b1\<lparr>images := post_process_images h (images b1) (lt\<lparr>tocdepth := t\<rparr>)\<rparr>" and
    es: "es = Info (''writing '' @ d @ '' to '' @ name @ ''.tex ... '') # es1 @ es2 @
       [DocWrite (path_join (outdir b) (name @ ''.tex''))
          (lt\<lparr>tocdepth := t, contentsname := cn, settings_docname := Some d\<rparr>), Info ''done'']"
    by (auto simp: process_doc_def Let_def andthen_Inr split: option.splits prod.splits)
  from assemble_doctree_Inr[OF a]
  have e1: "actions es1 = []" and b1: "b1 = b\<lparr>docnames := docnames b1\<rparr>"
    by auto
  from get_contentsname_Inr[OF c] have e2: "es2 = []" .
  have "outdir b1 = outdir b" "config b1 = config b" "document_data b1 = document_data b"
    "titles b1 = titles b"
    by (subst b1, simp)+
  with b' n es e1 e2 show ?thesis by (simp add: doc_path_def)
qed

section \<open>The loops and the whole of write\<close>

lemma init_chapters_loop_eq:
  "init_chapters_loop h cs b =
     (map (\<lambda>c. Warn (unknown_chapter_msg c)) (filter (\<lambda>c. c \<notin> all_docs h) cs),
      b\<lparr>document_data := document_data b @ filter (\<lambda>c. c \<in> all_docs h) cs\<rparr>)"
  by (induction cs arbitrary: b) (simp_all add: unknown_chapter_msg_def)

lemma init_chapters_eq:
  "init_chapters h b =
     (map Warn (chapter_warnings h b),
      b\<lparr>document_data := document_data b @ known_chapters h b\<rparr>)"
  by (simp add: init_chapters_def init_chapters_loop_eq Let_def chapter_warnings_def
      known_chapters_def no_chapters_msg_def comp_def)

lemma actions_map_Warn [simp]: "actions (map Warn ws) = map Warned ws"
  by (induction ws) simp_all

lemma write_chapters_Inr:
  "write_chapters h fmt ps (b, ctx) = (es, Inr (b', ctx')) \<Longrightarrow>
     ctx' = ctx\<lparr>chapter_names := chapter_names ctx @ map (\<lambda>(i, d). format_name fmt i) ps\<rparr>
   \<and> actions es = map (\<lambda>(i, d). DocWritten (doc_path b fmt i) (Some d)) ps
   \<and> outdir b' = outdir b \<and> config b' = config b \<and> document_data b' = document_data b"
proof (induction ps arbitrary: b ctx es)
  case Nil
  then show ?case by simp
next
  case (Cons p ps)
  obtain i d where p: "p = (i, d)" by (cases p)
  from Cons.prems p obtain es1 name b1 es2 where
    pd: "process_doc h b fmt i d = (es1, Inr (name, b1))" and
    rest: "write_chapters h fmt ps (b1, ctx\<lparr>chapter_names := chapter_names ctx @ [name]\<rparr>)
             = (es2, Inr (b', ctx'))" and
    es: "es = es1 @ es2"
    by (auto simp: andthen_Inr)
  from process_doc_Inr[OF pd] Cons.IH[OF rest] p es show ?case
    by (simp add: doc_path_def)
qed

lemma write_appendices_Inr:
  "write_appendices h fmt ps (b, ctx) = (es, Inr (b', ctx')) \<Longrightarrow>
     ctx' = ctx\<lparr>appendices := appendices ctx @ map (\<lambda>(i, d). format_name fmt i) ps\<rparr>
   \<and> actions es = map (\<lambda>(i, d). DocWritten (doc_path b fmt i) (Some d)) ps
   \<and> outdir b' = outdir b \<and> config b' = config b \<and> document_data b' = document_data b"
proof (induction ps arbitrary: b ctx es)
  case Nil
  then show ?case by simp
next
  case (Cons p ps)
  obtain i d where p: "p = (i, d)" by (cases p)
  from Cons.prems p obtain es1 name b1 es2 where
    pd: "process_doc h b fmt i d = (es1, Inr (name, b1))" and
    rest: "write_appendices h fmt ps (b1, ctx\<lparr>appendices := appendices ctx @ [name]\<rparr>)
             = (es2, Inr (b', ctx'))" and
    es: "es = es1 @ es2"
    by (auto simp: andthen_Inr)
  from process_doc_Inr[OF pd] Cons.IH[OF rest] p es show ?case
    by (simp add: doc_path_def)
qed

lemma render_template_Inr:
  "render_template h n f ctx = (es, Inr s) \<Longrightarrow> actions es = [Rendered n ctx, FileWritten f]"
  by (auto simp: render_template_def split: sum.splits option.splits)

lemma write_pygments_stylesheet_actions:
  "write_pygments_stylesheet h f = (es, r) \<Longrightarrow> actions es = [FileWritten f]"
  by (auto simp: write_pygments_stylesheet_def Let_def)

text \<open>A run of \<^verbatim>\<open>write\<close> that returns has done exactly this, in this order.\<close>

lemma write_Inr:
  assumes w: "write h b0 = (es, Inr b')"
  defines "ds \<equiv> document_data b0 @ known_chapters h b0"
  defines "as \<equiv> latex_appendices (config b0)"
  defines "cf \<equiv> chap_fmt (length ds)"
  defines "af \<equiv> app_fmt (length as)"
  shows "actions es =
      map Warned (chapter_warnings h b0)
      @ [FileWritten (path_join (outdir b0) ''pygments.sty''),
         Rendered ''half-title.tex'' (start_context b0),
         FileWritten (path_join (outdir b0) ''half-title.tex''),
         Rendered ''title.tex'' (start_context b0),
         FileWritten (path_join (outdir b0) ''title.tex'')]
      @ map (\<lambda>(i, d). DocWritten (doc_path b0 cf i) (Some d)) (enumerate 1 ds)
      @ map (\<lambda>(i, d). DocWritten (doc_path b0 af i) (Some d)) (enumerate 1 as)
      @ [Rendered ''book.tex''
           (book_context b0 (map (format_name cf) [1..<Suc (length ds)])
                            (map (format_name af) [1..<Suc (length as)])),
         FileWritten (path_join (outdir b0) ''book.tex'')]"
    and "document_data b' = ds" and "config b' = config b0"
proof -
  obtain es0 b where ic: "init_chapters h b0 = (es0, b)" by (cases "init_chapters h b0")
  have b: "b = b0\<lparr>document_data := ds\<rparr>" and e0: "actions es0 = map Warned (chapter_warnings h b0)"
    using ic by (auto simp: init_chapters_eq ds_def)
  have [simp]: "outdir b = outdir b0" "config b = config b0" "document_data b = ds"
    by (simp_all add: b)
  let ?ctx = "start_context b0"
  from w ic obtain e1 s1 e2 s2 e3 s3 e4 b4 c4 e5 c5 e6 s6 where
    p: "write_pygments_stylesheet h (path_join (outdir b0) ''pygments.sty'') = (e1, Inr s1)" and
    r2: "render_template h ''half-title.tex'' (path_join (outdir b0) ''half-title.tex'') ?ctx
           = (e2, Inr s2)" and
    r3: "render_template h ''title.tex'' (path_join (outdir b0) ''title.tex'') ?ctx
           = (e3, Inr s3)" and
    wc: "write_chapters h cf (enumerate 1 ds) (b, ?ctx) = (e4, Inr (b4, c4))" and
    wa: "write_appendices h (app_fmt (length (latex_appendices (config b4))))
            (enumerate 1 (latex_appendices (config b4))) (b4, c4) = (e5, Inr (b', c5))" and
    r6: "render_template h ''book.tex'' (path_join (outdir b') ''book.tex'')
           (c5\<lparr>external_docs := Some (chapter_names c5 @ appendices c5)\<rparr>) = (e6, Inr s6)" and
    es: "es = es0 @ e1 @ e2 @ e3 @ e4 @ e5 @ e6"
    by (auto simp: write_def Let_def andthen_Inr start_context_def cf_def chap_fmt_def app_fmt_def
        split: prod.splits)
  note c = write_chapters_Inr[OF wc]
  from c have [simp]: "outdir b4 = outdir b0" "config b4 = config b0" "document_data b4 = ds"
    by simp_all
  from wa have wa': "write_appendices h af (enumerate 1 as) (b4, c4) = (e5, Inr (b', c5))"
    by (simp add: af_def as_def)
  note a = write_appendices_Inr[OF wa']
  from a have o5: "outdir b' = outdir b0" by simp
  from a show "document_data b' = ds" and "config b' = config b0" by simp_all
  have c5: "c5\<lparr>external_docs := Some (chapter_names c5 @ appendices c5)\<rparr>
      = book_context b0 (map (format_name cf) [1..<Suc (length ds)])
                            (map (format_name af) [1..<Suc (length as)])"
    using c a by (simp add: map_enumerate_fst start_context_def book_context_def del: upt_Suc)
  from r6 have r6': "render_template h ''book.tex'' (path_join (outdir b0) ''book.tex'')
      (book_context b0 (map (format_name cf) [1..<Suc (length ds)])
                       (map (format_name af) [1..<Suc (length as)])) = (e6, Inr s6)"
    by (simp only: c5 o5)
  have e4: "actions e4 = map (\<lambda>(i, d). DocWritten (doc_path b0 cf i) (Some d)) (enumerate 1 ds)"
    using c by (simp add: doc_path_def)
  have e5: "actions e5 = map (\<lambda>(i, d). DocWritten (doc_path b0 af i) (Some d)) (enumerate 1 as)"
    using a by (simp add: doc_path_def)
  show "actions es =
      map Warned (chapter_warnings h b0)
      @ [FileWritten (path_join (outdir b0) ''pygments.sty''),
         Rendered ''half-title.tex'' (start_context b0),
         FileWritten (path_join (outdir b0) ''half-title.tex''),
         Rendered ''title.tex'' (start_context b0),
         FileWritten (path_join (outdir b0) ''title.tex'')]
      @ map (\<lambda>(i, d). DocWritten (doc_path b0 cf i) (Some d)) (enumerate 1 ds)
      @ map (\<lambda>(i, d). DocWritten (doc_path b0 af i) (Some d)) (enumerate 1 as)
      @ [Rendered ''book.tex''
           (book_context b0 (map (format_name cf) [1..<Suc (length ds)])
                            (map (format_name af) [1..<Suc (length as)])),
         FileWritten (path_join (outdir b0) ''book.tex'')]"
    unfolding es actions_simps e0 e4 e5
      write_pygments_stylesheet_actions[OF p] render_template_Inr[OF r2]
      render_template_Inr[OF r3] render_template_Inr[OF r6']
    by simp
qed

lemma docs_of_DocWritten:
  "concat (map (doc_written \<circ> (\<lambda>(i, d). DocWritten (f i) (Some d))) ps)
     = map (\<lambda>(i, d). (f i, Some d)) ps"
  by (induction ps) auto

lemma docs_of_Warned: "concat (map (doc_written \<circ> Warned) ws) = []"
  by (induction ws) auto

lemma enumerate_one_zip: "enumerate (Suc 0) xs = zip [Suc 0..<Suc (length xs)] xs"
  by (simp add: enumerate_eq_zip del: upt_Suc)

lemma write_docs_written:
  assumes w: "write h b0 = (es, Inr b')"
  shows "docs_written es =
      map (\<lambda>(i, d). (doc_path b0 (chap_fmt (length (document_data b'))) i, Some d))
        (zip [1..<Suc (length (document_data b'))] (document_data b'))
      @ map (\<lambda>(i, d). (doc_path b0 (app_fmt (length (latex_appendices (config b0)))) i, Some d))
          (zip [1..<Suc (length (latex_appendices (config b0)))] (latex_appendices (config b0)))"
  unfolding docs_written_def write_Inr(1)[OF w] write_Inr(2)[OF w]
  by (simp add: docs_of_DocWritten docs_of_Warned enumerate_one_zip del: upt_Suc)

section \<open>Numbering of the outputs\<close>

text \<open>C1. For a builder as \<^verbatim>\<open>init\<close> leaves it: when every identifier of the chapter
  list is a known document, the first
  \<open>L\<close> documents a completed run writes are the \<open>L\<close> chapters in the order of the list, the
  \<open>i\<close>-th of them to \<^verbatim>\<open>chap\<close> followed by \<open>i\<close> in decimal, zero-padded to two digits when
  \<open>L < 100\<close> and to three digits when \<open>L \<ge> 100\<close>, with \<open>i\<close> running from 1 to \<open>L\<close>.\<close>

theorem chapter_files_numbered:
  assumes known: "set (pearson_chapters (config b)) \<subseteq> all_docs h"
      and fresh: "document_data b = []"
      and run: "write h b = (es, Inr b')"
  shows "take (length (pearson_chapters (config b))) (docs_written es) =
           map (\<lambda>(i, d).
                  (path_join (outdir b)
                     (''chap''
                      @ format_d (if 100 \<le> length (pearson_chapters (config b)) then 3 else 2) i
                      @ ''.tex''),
                   Some d))
             (zip [1..<Suc (length (pearson_chapters (config b)))] (pearson_chapters (config b)))"
proof -
  have k: "known_chapters h b = pearson_chapters (config b)"
    using known by (auto simp: known_chapters_def filter_id_conv)
  have d: "document_data b' = pearson_chapters (config b)"
    using write_Inr(2)[OF run] fresh k by simp
  show ?thesis
    unfolding write_docs_written[OF run] d
    by (simp add: doc_path_def chap_fmt_def del: upt_Suc)
qed

text \<open>C2. In a completed run the documents written after the chapters are the
  appendices in the order of the list, the \<open>i\<close>-th of them to \<^verbatim>\<open>app\<close> followed by \<open>i\<close> in
  decimal (zero-padded to two digits, to three when there are 100 appendices or more),
  with \<open>i\<close> running from 1 to \<open>M\<close> whatever the number of chapters written before.\<close>

theorem appendix_files_numbered:
  assumes run: "write h b = (es, Inr b')"
  shows "drop (length (document_data b')) (docs_written es) =
           map (\<lambda>(i, d).
                  (path_join (outdir b)
                     (''app''
                      @ format_d (if 100 \<le> length (latex_appendices (config b)) then 3 else 2) i
                      @ ''.tex''),
                   Some d))
             (zip [1..<Suc (length (latex_appendices (config b)))] (latex_appendices (config b)))"
  unfolding write_docs_written[OF run]
  by (simp add: doc_path_def app_fmt_def del: upt_Suc)

section \<open>The order of a run\<close>

text \<open>C9. A completed run is one linear pass: after the warnings of \<^verbatim>\<open>init_chapters\<close>,
  the stylesheet and the two title templates come the chapters in order, then the
  appendices in order, then \<^verbatim>\<open>book.tex\<close> last; and \<^verbatim>\<open>book.tex\<close> is rendered with
  \<^verbatim>\<open>external_docs\<close> equal to the chapter names followed by the appendix names.\<close>

theorem write_linear_pass:
  assumes run: "write h b = (es, Inr b')"
      and fresh: "document_data b = []"
  shows "actions es =
      map Warned (chapter_warnings h b)
      @ [FileWritten (path_join (outdir b) ''pygments.sty''),
         Rendered ''half-title.tex'' (start_context b),
         FileWritten (path_join (outdir b) ''half-title.tex''),
         Rendered ''title.tex'' (start_context b),
         FileWritten (path_join (outdir b) ''title.tex'')]
      @ map (\<lambda>(i, d). DocWritten (doc_path b (chap_fmt (length (known_chapters h b))) i) (Some d))
          (enumerate 1 (known_chapters h b))
      @ map (\<lambda>(i, d).
               DocWritten (doc_path b (app_fmt (length (latex_appendices (config b)))) i) (Some d))
          (enumerate 1 (latex_appendices (config b)))
      @ [Rendered ''book.tex''
           (book_context b
              (map (format_name (chap_fmt (length (known_chapters h b))))
                 [1..<Suc (length (known_chapters h b))])
              (map (format_name (app_fmt (length (latex_appendices (config b)))))
                 [1..<Suc (length (latex_appendices (config b)))])),
         FileWritten (path_join (outdir b) ''book.tex'')]
    \<and> external_docs
         (book_context b
            (map (format_name (chap_fmt (length (known_chapters h b))))
               [1..<Suc (length (known_chapters h b))])
            (map (format_name (app_fmt (length (latex_appendices (config b)))))
               [1..<Suc (length (latex_appendices (config b)))]))
        = Some (map (format_name (chap_fmt (length (known_chapters h b))))
                  [1..<Suc (length (known_chapters h b))]
                @ map (format_name (app_fmt (length (latex_appendices (config b)))))
                    [1..<Suc (length (latex_appendices (config b)))])"
  using write_Inr(1)[OF run] fresh
  by (simp add: book_context_def del: upt_Suc)

section \<open>The example project, run\<close>

lemmas example_defs = example_builder_def example_config_def example_host_def example_tree_def

lemmas run_defs = write_def init_chapters_def write_pygments_stylesheet_def render_template_def
  process_doc_def assemble_doctree_def get_contentsname_def resolve_pending_def
  doc_toctrees_def doc_pending_def get_relative_uri_def get_target_uri_def Let_def
  path_join_def format_d_def str_nat.simps digit_char_def andthen_def

lemma example_run: "\<exists>b'. snd (write example_host example_builder) = Inr b'"
  by (simp add: run_defs example_defs)

lemma example_fields:
  "pearson_chapters (config example_builder) = [''intro'', ''usage'']"
  "latex_appendices (config example_builder) = [''history'']"
  "document_data example_builder = []"
  "outdir example_builder = ''out''"
  "all_docs example_host = {''intro'', ''usage'', ''history''}"
  by (simp_all add: example_defs)

lemmas name_defs = path_join_def format_d_def str_nat.simps digit_char_def

theorem chapter_files_numbered_witness:
  "set (pearson_chapters (config example_builder)) \<subseteq> all_docs example_host
   \<and> document_data example_builder = []
   \<and> (\<exists>b'. write example_host example_builder
              = (fst (write example_host example_builder), Inr b'))
   \<and> take 2 (docs_written (fst (write example_host example_builder)))
       = [(''out/chap01.tex'', Some ''intro''), (''out/chap02.tex'', Some ''usage'')]"
proof -
  have k: "set (pearson_chapters (config example_builder)) \<subseteq> all_docs example_host"
    by (simp add: example_fields)
  have f: "document_data example_builder = []"
    by (simp add: example_fields)
  from example_run obtain b' where
    w: "write example_host example_builder = (fst (write example_host example_builder), Inr b')"
    by (auto simp: prod_eq_iff)
  from chapter_files_numbered[OF k f w] k f w show ?thesis
    by (auto simp add: example_fields name_defs numeral_2_eq_2)
qed

theorem appendix_files_numbered_witness:
  "(\<exists>b'. write example_host example_builder
              = (fst (write example_host example_builder), Inr b')
         \<and> length (document_data b') = 2)
   \<and> drop 2 (docs_written (fst (write example_host example_builder)))
       = [(''out/app01.tex'', Some ''history'')]"
proof -
  from example_run obtain b' where
    w: "write example_host example_builder = (fst (write example_host example_builder), Inr b')"
    by (auto simp: prod_eq_iff)
  have d: "document_data b' = [''intro'', ''usage'']"
    using write_Inr(2)[OF w] by (simp add: example_fields known_chapters_def)
  from appendix_files_numbered[OF w] w d show ?thesis
    by (auto simp add: example_fields name_defs numeral_2_eq_2)
qed

theorem write_linear_pass_witness:
  "(\<exists>b'. write example_host example_builder
              = (fst (write example_host example_builder), Inr b'))
   \<and> document_data example_builder = []
   \<and> actions (fst (write example_host example_builder))
       = [FileWritten ''out/pygments.sty'',
          Rendered ''half-title.tex'' (start_context example_builder),
          FileWritten ''out/half-title.tex'',
          Rendered ''title.tex'' (start_context example_builder),
          FileWritten ''out/title.tex'',
          DocWritten ''out/chap01.tex'' (Some ''intro''),
          DocWritten ''out/chap02.tex'' (Some ''usage''),
          DocWritten ''out/app01.tex'' (Some ''history''),
          Rendered ''book.tex''
            (book_context example_builder [''chap01'', ''chap02''] [''app01'']),
          FileWritten ''out/book.tex'']
   \<and> external_docs (book_context example_builder [''chap01'', ''chap02''] [''app01''])
       = Some [''chap01'', ''chap02'', ''app01'']"
proof -
  from example_run obtain b' where
    w: "write example_host example_builder = (fst (write example_host example_builder), Inr b')"
    by (auto simp: prod_eq_iff)
  have f: "document_data example_builder = []"
    by (simp add: example_fields)
  from write_linear_pass[OF w f] w f show ?thesis
    by (auto simp add: example_fields name_defs known_chapters_def chapter_warnings_def
        doc_path_def chap_fmt_def app_fmt_def book_context_def)
qed

section \<open>Unknown chapters\<close>

lemma get_relative_uri_config [simp]: "get_relative_uri (b\<lparr>config := c\<rparr>) = get_relative_uri b"
  by (rule ext)+ (simp add: get_relative_uri_def get_target_uri_def)

lemma resolve_pending_config [simp]: "resolve_pending (b\<lparr>config := c\<rparr>) t = resolve_pending b t"
  by (simp add: resolve_pending_def)

lemma config_update_commute:
  "b\<lparr>config := c, images := i\<rparr> = b\<lparr>images := i, config := c\<rparr>"
  "b\<lparr>config := c, docnames := D\<rparr> = b\<lparr>docnames := D, config := c\<rparr>"
  by simp_all

lemma map_outcome_andthen:
  "map_outcome g (andthen m f) = andthen m (\<lambda>a. map_outcome g (f a))"
  by (auto simp: map_outcome_def andthen_def split: prod.splits sum.splits)

lemma map_outcome_simps [simp]:
  "map_outcome g (es, Inl e) = (es, Inl e)"
  "map_outcome g (es, Inr a) = (es, Inr (g a))"
  by (simp_all add: map_outcome_def)

lemma assemble_doctree_config:
  "assemble_doctree h (b\<lparr>config := c\<rparr>) i tonly apps
     = map_outcome (\<lambda>(t, b'). (t, b'\<lparr>config := c\<rparr>)) (assemble_doctree h b i tonly apps)"
  by (simp add: assemble_doctree_def Let_def map_outcome_andthen case_prod_unfold config_update_commute split: option.splits)

lemma andthen_map_outcome:
  "andthen (map_outcome g m) f = andthen m (\<lambda>a. f (g a))"
  by (auto simp: map_outcome_def andthen_def split: prod.splits sum.splits)

lemma process_doc_config:
  "process_doc h (b\<lparr>config := c\<rparr>) fmt n d
     = map_outcome (\<lambda>(nm, b'). (nm, b'\<lparr>config := c\<rparr>)) (process_doc h b fmt n d)"
  by (simp add: process_doc_def Let_def map_outcome_andthen assemble_doctree_config
      andthen_map_outcome case_prod_unfold config_update_commute split: option.splits)

lemma write_eq:
  "write h b0 =
     (case init_chapters h b0 of (es0, b) \<Rightarrow> andthen (es0, Inr ()) (\<lambda>_. write_documents h b))"
  by (simp add: write_def write_documents_def)

lemma andthen_cong_Inr:
  "(\<And>es a. m = (es, Inr a) \<Longrightarrow> f a = g a) \<Longrightarrow> andthen m f = andthen m g"
  by (auto simp: andthen_def split: prod.splits sum.splits)

lemma write_chapters_config:
  "write_chapters h fmt ps (b\<lparr>config := c\<rparr>, ctx)
     = map_outcome (\<lambda>(b', ctx'). (b'\<lparr>config := c\<rparr>, ctx')) (write_chapters h fmt ps (b, ctx))"
proof (induction ps arbitrary: b ctx)
  case Nil
  then show ?case by simp
next
  case (Cons p ps)
  obtain i d where p: "p = (i, d)" by (cases p)
  show ?case
    by (simp add: p process_doc_config andthen_map_outcome map_outcome_andthen Cons.IH
        case_prod_unfold)
qed

lemma write_appendices_config:
  "write_appendices h fmt ps (b\<lparr>config := c\<rparr>, ctx)
     = map_outcome (\<lambda>(b', ctx'). (b'\<lparr>config := c\<rparr>, ctx')) (write_appendices h fmt ps (b, ctx))"
proof (induction ps arbitrary: b ctx)
  case Nil
  then show ?case by simp
next
  case (Cons p ps)
  obtain i d where p: "p = (i, d)" by (cases p)
  show ?case
    by (simp add: p process_doc_config andthen_map_outcome map_outcome_andthen Cons.IH
        case_prod_unfold)
qed

lemma write_documents_config:
  assumes c: "c = (config b)\<lparr>pearson_chapters := x\<rparr>"
  shows "write_documents h (b\<lparr>config := c\<rparr>)
           = map_outcome (\<lambda>b'. b'\<lparr>config := c\<rparr>) (write_documents h b)"
proof -
  have f: "pearson_title c = pearson_title (config b)"
    "pearson_subtitle c = pearson_subtitle (config b)"
    "pearson_author c = pearson_author (config b)"
    "latex_appendices c = latex_appendices (config b)"
    by (simp_all add: c)
  show ?thesis
    unfolding write_documents_def Let_def
    apply (simp add: f map_outcome_andthen write_chapters_config write_appendices_config
        andthen_map_outcome)
    apply (intro conjI impI andthen_cong_Inr)
    apply (auto simp: f map_outcome_andthen write_appendices_config andthen_map_outcome
        dest!: write_chapters_Inr write_appendices_Inr intro!: andthen_cong_Inr)
    done
qed

lemma write_known_only:
  fixes h b
  defines "bk \<equiv> b\<lparr>config := (config b)\<lparr>pearson_chapters := known_chapters h b\<rparr>\<rparr>"
  shows "\<exists>es r r'. write h b = (map Warn (chapter_warnings h b) @ es, r)
           \<and> write h bk = (map Warn (chapter_warnings h bk) @ es, r')
           \<and> (\<forall>e. r = Inl e \<longleftrightarrow> r' = Inl e)
           \<and> ((\<exists>x. r = Inr x) \<longleftrightarrow> (\<exists>x. r' = Inr x))"
proof -
  let ?b1 = "b\<lparr>document_data := document_data b @ known_chapters h b\<rparr>"
  let ?c = "(config b)\<lparr>pearson_chapters := known_chapters h b\<rparr>"
  have kk: "known_chapters h bk = known_chapters h b"
    by (simp add: known_chapters_def bk_def)
  have i: "init_chapters h bk = (map Warn (chapter_warnings h bk), ?b1\<lparr>config := ?c\<rparr>)"
    unfolding init_chapters_eq kk by (simp add: bk_def)
  have d: "write_documents h (?b1\<lparr>config := ?c\<rparr>)
             = map_outcome (\<lambda>b'. b'\<lparr>config := ?c\<rparr>) (write_documents h ?b1)"
    by (rule write_documents_config) simp
  obtain es r where w: "write_documents h ?b1 = (es, r)"
    by (cases "write_documents h ?b1")
  have 1: "write h b = (map Warn (chapter_warnings h b) @ es, r)"
    by (simp add: write_eq init_chapters_eq w andthen_def)
  have 2: "write h bk = (map Warn (chapter_warnings h bk) @ es, map_sum id (\<lambda>b'. b'\<lparr>config := ?c\<rparr>) r)"
    by (simp add: write_eq i d w andthen_def map_outcome_def split: sum.splits)
  show ?thesis
    using 1 2 by (cases r) auto
qed

text \<open>C3. \<^verbatim>\<open>init_chapters\<close> logs one warning for each identifier of the chapter list that
  is not a known document, keeps the known ones in order and returns; removing the
  unknown identifiers from the list changes nothing in what \<^verbatim>\<open>write\<close> does after those
  warnings, nor whether and how it fails; and a completed run has written every known
  chapter, numbered consecutively.\<close>

theorem unknown_chapters_skipped:
  fixes h b
  defines "cs \<equiv> pearson_chapters (config b)"
  defines "known \<equiv> filter (\<lambda>c. c \<in> all_docs h) cs"
  defines "bk \<equiv> b\<lparr>config := (config b)\<lparr>pearson_chapters := known\<rparr>\<rparr>"
  shows "init_chapters h b =
           (if cs = [] then [Warn no_chapters_msg]
            else map (\<lambda>c. Warn (unknown_chapter_msg c)) (filter (\<lambda>c. c \<notin> all_docs h) cs),
            b\<lparr>document_data := document_data b @ known\<rparr>)
       \<and> (\<exists>es r r'. write h b = (fst (init_chapters h b) @ es, r)
             \<and> write h bk = (fst (init_chapters h bk) @ es, r')
             \<and> (\<forall>e. r = Inl e \<longleftrightarrow> r' = Inl e)
             \<and> ((\<exists>x. r = Inr x) \<longleftrightarrow> (\<exists>x. r' = Inr x)))
       \<and> (\<forall>es b'. write h b = (es, Inr b') \<and> document_data b = [] \<longrightarrow>
             take (length known) (docs_written es) =
               map (\<lambda>(i, d).
                      (path_join (outdir b)
                         (''chap'' @ format_d (if 100 \<le> length known then 3 else 2) i @ ''.tex''),
                       Some d))
                 (zip [1..<Suc (length known)] known))"
proof (intro conjI allI impI)
  have k: "known = known_chapters h b"
    by (simp add: known_def cs_def known_chapters_def)
  show "init_chapters h b =
           (if cs = [] then [Warn no_chapters_msg]
            else map (\<lambda>c. Warn (unknown_chapter_msg c)) (filter (\<lambda>c. c \<notin> all_docs h) cs),
            b\<lparr>document_data := document_data b @ known\<rparr>)"
    by (simp add: init_chapters_eq k chapter_warnings_def cs_def comp_def)
  show "\<exists>es r r'. write h b = (fst (init_chapters h b) @ es, r)
             \<and> write h bk = (fst (init_chapters h bk) @ es, r')
             \<and> (\<forall>e. r = Inl e \<longleftrightarrow> r' = Inl e)
             \<and> ((\<exists>x. r = Inr x) \<longleftrightarrow> (\<exists>x. r' = Inr x))"
    using write_known_only[of h b] unfolding bk_def k by (simp add: init_chapters_eq)
  fix es b'
  assume a: "write h b = (es, Inr b') \<and> document_data b = []"
  then have w: "write h b = (es, Inr b')" and f: "document_data b = []"
    by simp_all
  have d: "document_data b' = known"
    using write_Inr(2)[OF w] k f by simp
  show "take (length known) (docs_written es) =
               map (\<lambda>(i, d).
                      (path_join (outdir b)
                         (''chap'' @ format_d (if 100 \<le> length known then 3 else 2) i @ ''.tex''),
                       Some d))
                 (zip [1..<Suc (length known)] known)"
    unfolding write_docs_written[OF w] d
    by (simp add: doc_path_def chap_fmt_def del: upt_Suc)
qed

lemma example_unknown_run: "\<exists>b'. snd (write example_host example_builder_unknown) = Inr b'"
  by (simp add: run_defs example_defs example_builder_unknown_def)

lemma example_unknown_fields:
  "pearson_chapters (config example_builder_unknown) = [''intro'', ''missing'', ''usage'']"
  "document_data example_builder_unknown = []"
  "outdir example_builder_unknown = ''out''"
  by (simp_all add: example_defs example_builder_unknown_def)

theorem unknown_chapters_skipped_witness:
  "fst (init_chapters example_host example_builder_unknown)
     = [Warn (unknown_chapter_msg ''missing'')]
   \<and> document_data (snd (init_chapters example_host example_builder_unknown))
     = [''intro'', ''usage'']
   \<and> (\<exists>b'. write example_host example_builder_unknown
              = (fst (write example_host example_builder_unknown), Inr b'))
   \<and> take 2 (docs_written (fst (write example_host example_builder_unknown)))
       = [(''out/chap01.tex'', Some ''intro''), (''out/chap02.tex'', Some ''usage'')]"
proof -
  from example_unknown_run obtain b' where
    w: "write example_host example_builder_unknown
          = (fst (write example_host example_builder_unknown), Inr b')"
    by (auto simp: prod_eq_iff)
  note t = unknown_chapters_skipped[of example_host example_builder_unknown]
  from t have i: "init_chapters example_host example_builder_unknown
      = ([Warn (unknown_chapter_msg ''missing'')],
         example_builder_unknown\<lparr>document_data := [''intro'', ''usage'']\<rparr>)"
    by (simp add: example_unknown_fields example_fields)
  from t w have "take 2 (docs_written (fst (write example_host example_builder_unknown)))
       = [(''out/chap01.tex'', Some ''intro''), (''out/chap02.tex'', Some ''usage'')]"
    by (auto simp add: example_unknown_fields example_fields name_defs numeral_2_eq_2)
  with i w show ?thesis by auto
qed

section \<open>Target URIs and the set of document names\<close>

lemmas assemble_defs = assemble_doctree_def resolve_pending_def doc_toctrees_def doc_pending_def
  get_relative_uri_def get_target_uri_def Let_def andthen_def

lemma assemble_doctree_docnames_explicit:
  assumes "get_doctree h i = Some t0"
      and "assemble_doctree h b i tonly apps = (es, Inr (t, b'))"
  shows "docnames b'
           = set (i # apps)
             \<union> set (snd (inline_all_toctrees h (set (i # apps)) i (index_tree t0 i tonly)))"
  using assms
  by (auto simp: assemble_doctree_def index_tree_def Let_def andthen_Inr
      split: option.splits prod.splits)

text \<open>The set \<^verbatim>\<open>assemble_doctree\<close> leaves is not the root and its appendices alone: for a
  chapter into which the host inlines another document, the set holds that document
  too, and \<^verbatim>\<open>get_target_uri\<close> returns a URI for it.\<close>

theorem docnames_hold_inlined_documents:
  "map_sum id snd (snd (assemble_doctree inlining_host example_builder ''intro'' False []))
     = Inr (example_builder\<lparr>docnames := {''intro'', ''usage''}\<rparr>)
   \<and> {''intro'', ''usage''} \<noteq> set (''intro'' # [])
   \<and> ''usage'' \<notin> set (''intro'' # [])
   \<and> get_target_uri (example_builder\<lparr>docnames := {''intro'', ''usage''}\<rparr>) ''usage''
       = Inr ''%usage''"
  by (simp add: assemble_defs example_defs inlining_host_def insert_commute)

text \<open>C10. \<^verbatim>\<open>get_target_uri\<close> raises \<^verbatim>\<open>NoUri\<close> exactly for a name outside the builder's
  \<^verbatim>\<open>docnames\<close> and returns \<^verbatim>\<open>'%'\<close> followed by the name otherwise; \<^verbatim>\<open>get_relative_uri\<close>
  is \<^verbatim>\<open>get_target_uri\<close> of the target, whatever the source; and \<^verbatim>\<open>assemble_doctree\<close>
  discards the set it finds: what it does does not depend on it, and the set it leaves
  is the root and its appendices together with the documents \<^verbatim>\<open>inline_all_toctrees\<close> adds
  when it is given that set and the tree of the root.\<close>

theorem target_uri_of_docnames:
  "get_target_uri b d = (if d \<in> docnames b then Inr (CHR ''%'' # d) else Inl NoUri)
   \<and> (get_target_uri b d = Inl NoUri \<longleftrightarrow> d \<notin> docnames b)
   \<and> get_relative_uri b from_doc d = get_target_uri b d
   \<and> assemble_doctree h (b\<lparr>docnames := D\<rparr>) indexfile toctree_only apps
       = assemble_doctree h b indexfile toctree_only apps
   \<and> (\<forall>es t b' t0.
         get_doctree h indexfile = Some t0
         \<and> assemble_doctree h b indexfile toctree_only apps = (es, Inr (t, b')) \<longrightarrow>
         docnames b'
           = set (indexfile # apps)
             \<union> set (snd (inline_all_toctrees h (set (indexfile # apps)) indexfile
                            (index_tree t0 indexfile toctree_only))))"
proof (intro conjI allI impI)
  show "get_target_uri b d = (if d \<in> docnames b then Inr (CHR ''%'' # d) else Inl NoUri)"
    by (simp add: get_target_uri_def)
  show "get_target_uri b d = Inl NoUri \<longleftrightarrow> d \<notin> docnames b"
    by (simp add: get_target_uri_def)
  show "get_relative_uri b from_doc d = get_target_uri b d"
    by (simp add: get_relative_uri_def)
  show "assemble_doctree h (b\<lparr>docnames := D\<rparr>) indexfile toctree_only apps
       = assemble_doctree h b indexfile toctree_only apps"
    by (simp add: assemble_doctree_def)
  fix es t b' t0
  assume "get_doctree h indexfile = Some t0
         \<and> assemble_doctree h b indexfile toctree_only apps = (es, Inr (t, b'))"
  then have "get_doctree h indexfile = Some t0"
    and "assemble_doctree h b indexfile toctree_only apps = (es, Inr (t, b'))"
    by simp_all
  then show "docnames b'
           = set (indexfile # apps)
             \<union> set (snd (inline_all_toctrees h (set (indexfile # apps)) indexfile
                            (index_tree t0 indexfile toctree_only)))"
    by (rule assemble_doctree_docnames_explicit)
qed

theorem target_uri_of_docnames_witness:
  "\<exists>es t b'.
      get_doctree inlining_host ''intro'' = Some (example_tree ''intro'')
    \<and> assemble_doctree inlining_host (example_builder\<lparr>docnames := {''old''}\<rparr>) ''intro'' False
        [''history''] = (es, Inr (t, b'))
    \<and> docnames b' = {''intro'', ''history'', ''usage''}
    \<and> get_target_uri b' ''old'' = Inl NoUri
    \<and> get_target_uri b' ''usage'' = Inr ''%usage''
    \<and> get_relative_uri b' ''intro'' ''history'' = Inr ''%history''"
proof -
  have g: "get_doctree inlining_host ''intro'' = Some (example_tree ''intro'')"
    by (simp add: inlining_host_def example_defs)
  obtain es t b' where
    a: "assemble_doctree inlining_host (example_builder\<lparr>docnames := {''old''}\<rparr>) ''intro'' False
          [''history''] = (es, Inr (t, b'))"
    by (simp add: assemble_defs example_defs inlining_host_def)
  note u = target_uri_of_docnames[of _ _ _ inlining_host _ "''intro''" False "[''history'']"]
  from u[of "example_builder\<lparr>docnames := {''old''}\<rparr>"] g a
  have "docnames b'
      = set [''intro'', ''history'']
        \<union> set (snd (inline_all_toctrees inlining_host (set [''intro'', ''history'']) ''intro''
                       (index_tree (example_tree ''intro'') ''intro'' False)))"
    by blast
  then have d: "docnames b' = {''intro'', ''history'', ''usage''}"
    by (auto simp add: inlining_host_def example_defs)
  from u[of b'] d have "get_target_uri b' ''old'' = Inl NoUri"
    "get_target_uri b' ''usage'' = Inr ''%usage''"
    "get_relative_uri b' ''intro'' ''history'' = Inr ''%history''"
    by simp_all
  with g a d show ?thesis by blast
qed

section \<open>The logo\<close>

lemma copy_images_props:
  "copy_images b ims fs = (es, r) \<Longrightarrow>
     (\<forall>ev \<in> set es. \<not> is_static_copy ev)
   \<and> (\<forall>fs'. r = Inr fs' \<longrightarrow>
         fs \<subseteq> fs' \<and> fs' \<subseteq> fs \<union> (\<lambda>(src, dest). path_join (outdir b) dest) ` set ims)
   \<and> ((\<forall>(src, dest) \<in> set ims. path_join (srcdir b) src \<in> fs) \<longrightarrow> (\<exists>fs'. r = Inr fs'))"
proof (induction ims arbitrary: fs es r)
  case Nil
  then show ?case by auto
next
  case (Cons p ims)
  obtain s d where p: "p = (s, d)" by (cases p)
  show ?case
  proof (cases "path_join (srcdir b) s \<in> fs")
    case False
    with Cons.prems p show ?thesis
      by (auto simp: andthen_def copyfile_def)
  next
    case True
    with Cons.prems p obtain es' where
      r: "copy_images b ims (insert (path_join (outdir b) d) fs) = (es', r)" and
      es: "es = Info ('' '' @ s) # CopyFile (path_join (srcdir b) s) (path_join (outdir b) d) # es'"
      by (auto simp: andthen_def copyfile_def split: prod.splits)
    from Cons.IH[OF r] es p show ?thesis
      by (auto simp: case_prod_unfold)
  qed
qed

lemma copy_additional_files_props:
  "copy_additional_files b fls fs = (es, r) \<Longrightarrow>
     (\<forall>ev \<in> set es. \<not> is_static_copy ev)
   \<and> (\<forall>fs'. r = Inr fs' \<longrightarrow>
         fs \<subseteq> fs' \<and> fs' \<subseteq> fs \<union> (\<lambda>f. path_join (outdir b) (basename f)) ` set fls)
   \<and> ((\<forall>f \<in> set fls. path_join (confdir b) f \<in> fs) \<longrightarrow> (\<exists>fs'. r = Inr fs'))"
proof (induction fls arbitrary: fs es r)
  case Nil
  then show ?case by auto
next
  case (Cons f fls)
  show ?case
  proof (cases "path_join (confdir b) f \<in> fs")
    case False
    with Cons.prems show ?thesis
      by (auto simp: andthen_def copyfile_def)
  next
    case True
    with Cons.prems obtain es' where
      r: "copy_additional_files b fls (insert (path_join (outdir b) (basename f)) fs) = (es', r)" and
      es: "es = Info ('' '' @ f)
                # CopyFile (path_join (confdir b) f) (path_join (outdir b) (basename f)) # es'"
      by (auto simp: andthen_def copyfile_def split: prod.splits)
    from Cons.IH[OF r] es show ?thesis
      by auto
  qed
qed

lemma finish_images_props:
  assumes "finish_images b fs = (es, r)"
  shows "(\<forall>ev \<in> set es. \<not> is_static_copy ev)
   \<and> (\<forall>fs'. r = Inr fs' \<longrightarrow> fs \<subseteq> fs' \<and> fs' \<subseteq> fs \<union> copy_targets b)
   \<and> (copy_sources b \<subseteq> fs \<longrightarrow> (\<exists>fs'. r = Inr fs'))"
proof (cases "images b = []")
  case True
  with assms show ?thesis by (auto simp: finish_images_def)
next
  case False
  obtain es' r' where c: "copy_images b (images b) fs = (es', r')"
    by (cases "copy_images b (images b) fs")
  from assms False c have es: "es = Info ''copying images...'' # es' @ (if isl r' then [] else [Info []])"
    and r: "r = r'"
    by (auto simp: finish_images_def andthen_def split: sum.splits)
  from copy_images_props[OF c] es r show ?thesis
    by (auto simp: copy_targets_def copy_sources_def)
qed

lemma finish_additional_files_props:
  assumes "finish_additional_files b fs = (es, r)"
  shows "(\<forall>ev \<in> set es. \<not> is_static_copy ev)
   \<and> (\<forall>fs'. r = Inr fs' \<longrightarrow> fs \<subseteq> fs' \<and> fs' \<subseteq> fs \<union> copy_targets b)
   \<and> ((\<forall>f \<in> set (latex_additional_files (config b)). path_join (confdir b) f \<in> fs)
        \<longrightarrow> (\<exists>fs'. r = Inr fs'))"
proof (cases "latex_additional_files (config b) = []")
  case True
  with assms show ?thesis by (auto simp: finish_additional_files_def)
next
  case False
  obtain es' r' where c: "copy_additional_files b (latex_additional_files (config b)) fs = (es', r')"
    by (cases "copy_additional_files b (latex_additional_files (config b)) fs")
  from assms False c have
    es: "es = Info ''copying additional files...'' # es' @ (if isl r' then [] else [Info []])"
    and r: "r = r'"
    by (auto simp: finish_additional_files_def andthen_def split: sum.splits)
  from copy_additional_files_props[OF c] es r show ?thesis
    by (auto simp: copy_targets_def)
qed

lemma finish_logo_missing:
  assumes "latex_logo (config b) = Some logo" and "logo \<noteq> []"
      and "path_join (confdir b) logo \<notin> fs"
  shows "finish_logo b fs
           = ([], Inl (SphinxError (''logo file '' @ repr_str logo @ '' does not exist'')))"
  using assms by (simp add: finish_logo_def Let_def)

lemma andthen_assoc: "andthen (andthen m f) g = andthen m (\<lambda>a. andthen (f a) g)"
  by (auto simp: andthen_def split: prod.splits sum.splits)

lemma finish_eq:
  "finish h b fs =
     andthen (files_at_logo b fs) (\<lambda>fs.
     andthen (finish_logo b fs) (\<lambda>fs.
     andthen (finish_static h b fs) (\<lambda>fs.
     ([Info ''done''], Inr fs))))"
  by (simp add: finish_def files_at_logo_def andthen_assoc)

lemma files_at_logo_props:
  assumes "files_at_logo b fs = (es, r)"
  shows "(\<forall>ev \<in> set es. \<not> is_static_copy ev)
   \<and> (\<forall>fs'. r = Inr fs' \<longrightarrow> fs \<subseteq> fs' \<and> fs' \<subseteq> fs \<union> copy_targets b)
   \<and> (copy_sources b \<subseteq> fs \<longrightarrow> (\<exists>fs'. r = Inr fs'))"
proof -
  obtain e1 r1 where i: "finish_images b fs = (e1, r1)"
    by (cases "finish_images b fs")
  note ip = finish_images_props[OF i]
  show ?thesis
  proof (cases r1)
    case (Inl e)
    with assms i ip show ?thesis
      by (auto simp: files_at_logo_def andthen_def)
  next
    case (Inr fs1)
    obtain e2 r2 where a: "finish_additional_files b fs1 = (e2, r2)"
      by (cases "finish_additional_files b fs1")
    note ap = finish_additional_files_props[OF a]
    from assms i a Inr have es: "es = e1 @ e2" and r: "r = r2"
      by (auto simp: files_at_logo_def andthen_def)
    from ip Inr have s1: "fs \<subseteq> fs1" "fs1 \<subseteq> fs \<union> copy_targets b" by auto
    have c1: "\<forall>ev \<in> set es. \<not> is_static_copy ev"
      using ip ap es by auto
    have c2: "\<forall>fs'. r = Inr fs' \<longrightarrow> fs \<subseteq> fs' \<and> fs' \<subseteq> fs \<union> copy_targets b"
    proof (intro allI impI)
      fix fs'
      assume "r = Inr fs'"
      with r ap have "fs1 \<subseteq> fs'" "fs' \<subseteq> fs1 \<union> copy_targets b" by simp_all
      with s1 show "fs \<subseteq> fs' \<and> fs' \<subseteq> fs \<union> copy_targets b" by blast
    qed
    have c3: "copy_sources b \<subseteq> fs \<longrightarrow> (\<exists>fs'. r = Inr fs')"
    proof
      assume "copy_sources b \<subseteq> fs"
      with s1 have "\<forall>f \<in> set (latex_additional_files (config b)). path_join (confdir b) f \<in> fs1"
        by (auto simp: copy_sources_def)
      with ap r show "\<exists>fs'. r = Inr fs'" by simp
    qed
    from c1 c2 c3 show ?thesis by (intro conjI)
  qed
qed

text \<open>A file that is not there before \<^verbatim>\<open>finish\<close> and is not the destination of one of
  its copies is not there when \<^verbatim>\<open>finish\<close> looks for the logo; and \<^verbatim>\<open>finish\<close> comes to the
  logo when the images and additional files are all there to be copied.\<close>

lemma absent_at_logo:
  assumes "p \<notin> fs" and "p \<notin> copy_targets b" and "files_at_logo b fs = (es1, Inr fs1)"
  shows "p \<notin> fs1"
  using files_at_logo_props[OF assms(3)] assms(1,2) by auto

lemma comes_to_logo:
  assumes "copy_sources b \<subseteq> fs"
  shows "\<exists>es1 fs1. files_at_logo b fs = (es1, Inr fs1)"
proof -
  obtain es r where f: "files_at_logo b fs = (es, r)"
    by (cases "files_at_logo b fs")
  from files_at_logo_props[OF f] assms obtain fs' where "r = Inr fs'"
    by auto
  with f show ?thesis by auto
qed

text \<open>C6. When a logo is configured and its file is not under the configuration
  directory when \<^verbatim>\<open>finish\<close> looks for it, \<^verbatim>\<open>finish\<close> raises, and nothing it has done up to
  there is the copy of a static file of the theme (the images and the additional files
  are copied before the logo is looked for); what it raises when it comes to the logo is
  the \<^verbatim>\<open>SphinxError\<close> for the logo.\<close>

theorem missing_logo_aborts_before_static:
  assumes logo: "latex_logo (config b) = Some logo" "logo \<noteq> []"
      and missing: "\<forall>es1 fs1. files_at_logo b fs = (es1, Inr fs1)
                      \<longrightarrow> path_join (confdir b) logo \<notin> fs1"
      and run: "finish h b fs = (es, r)"
  shows "(\<exists>e. r = Inl e) \<and> (\<forall>ev \<in> set es. \<not> is_static_copy ev)
       \<and> (\<forall>es1 fs1. files_at_logo b fs = (es1, Inr fs1) \<longrightarrow>
            es = es1
            \<and> r = Inl (SphinxError (''logo file '' @ repr_str logo @ '' does not exist'')))"
proof -
  obtain es1 r1 where f: "files_at_logo b fs = (es1, r1)"
    by (cases "files_at_logo b fs")
  note fp = files_at_logo_props[OF f]
  show ?thesis
  proof (cases r1)
    case (Inl e)
    with run f fp show ?thesis
      by (auto simp: finish_eq andthen_def)
  next
    case (Inr fs1)
    with missing f have "path_join (confdir b) logo \<notin> fs1" by simp
    from finish_logo_missing[OF logo this] run f Inr
    have "r = Inl (SphinxError (''logo file '' @ repr_str logo @ '' does not exist''))"
      "es = es1"
      by (auto simp: finish_eq andthen_def)
    with fp f Inr show ?thesis by auto
  qed
qed

theorem missing_logo_aborts_before_static_witness:
  "latex_logo (config example_builder_logo) = Some ''logo.png''
   \<and> theme example_builder_logo = Some [''themes/pearson'']
   \<and> (\<exists>es1 fs1. files_at_logo example_builder_logo example_files = (es1, Inr fs1)
         \<and> ''doc/logo.png'' \<notin> fs1
         \<and> finish example_host example_builder_logo example_files
             = (es1, Inl (SphinxError ''logo file 'logo.png' does not exist''))
         \<and> filter is_static_copy es1 = [])"
proof -
  have l: "latex_logo (config example_builder_logo) = Some ''logo.png''" "''logo.png'' \<noteq> []"
    by (simp_all add: example_builder_logo_def)
  have t: "theme example_builder_logo = Some [''themes/pearson'']"
    by (simp add: example_builder_logo_def)
  have p: "path_join (confdir example_builder_logo) ''logo.png'' = ''doc/logo.png''"
    by (simp add: example_builder_logo_def example_defs path_join_def)
  have a: "path_join (confdir example_builder_logo) ''logo.png'' \<notin> example_files"
    "path_join (confdir example_builder_logo) ''logo.png'' \<notin> copy_targets example_builder_logo"
    unfolding p
    by (simp_all add: example_files_def copy_targets_def example_builder_logo_def example_defs
        path_join_def basename_def)
  have "copy_sources example_builder_logo \<subseteq> example_files"
    by (simp add: example_files_def copy_sources_def example_builder_logo_def example_defs
        path_join_def)
  from comes_to_logo[OF this] obtain es1 fs1 where
    f: "files_at_logo example_builder_logo example_files = (es1, Inr fs1)"
    by blast
  from absent_at_logo[OF a f] have n: "path_join (confdir example_builder_logo) ''logo.png'' \<notin> fs1" .
  have m: "\<forall>es1 fs1. files_at_logo example_builder_logo example_files = (es1, Inr fs1)
             \<longrightarrow> path_join (confdir example_builder_logo) ''logo.png'' \<notin> fs1"
    using f n by simp
  have r: "finish example_host example_builder_logo example_files
      = (fst (finish example_host example_builder_logo example_files),
         snd (finish example_host example_builder_logo example_files))"
    by simp
  from missing_logo_aborts_before_static[OF l m r] f
  have "finish example_host example_builder_logo example_files
      = (es1, Inl (SphinxError ''logo file 'logo.png' does not exist''))"
    and "filter is_static_copy es1 = []"
    by (auto simp: repr_str_def repr_char_def Let_def filter_empty_conv prod_eq_iff)
  with l t f n p show ?thesis by auto
qed

section \<open>Where the code parts from the specification\<close>

text \<open>C4. The appendix loop does not look an identifier up in the known documents:
  an appendix the environment cannot load makes \<^verbatim>\<open>write\<close> raise, after the chapters and
  with no warning; and one the environment can load although it is not a known document
  is written as \<^verbatim>\<open>app01\<close>, again with no warning.\<close>

theorem unknown_appendix_not_skipped:
  "''missing'' \<notin> all_docs example_host
   \<and> snd (write example_host example_builder_appendix) = Inl (IOError ''missing'')
   \<and> warnings (fst (write example_host example_builder_appendix)) = []
   \<and> ''missing'' \<notin> all_docs lenient_host
   \<and> warnings (fst (write lenient_host example_builder_appendix)) = []
   \<and> docs_written (fst (write lenient_host example_builder_appendix))
       = [(''out/chap01.tex'', Some ''intro''), (''out/chap02.tex'', Some ''usage''),
          (''out/app01.tex'', Some ''missing'')]"
  by (simp add: run_defs example_defs example_builder_appendix_def lenient_host_def)

text \<open>No method of the builder assigns \<^verbatim>\<open>titles\<close>.\<close>

lemma check_options_titles: "check_options b = (es, Inr b') \<Longrightarrow> titles b' = titles b"
  by (auto simp: check_options_def andthen_Inr split: if_splits option.splits)

lemma init_titles: "init h b = (es, Inr b') \<Longrightarrow> titles b' = titles b"
  by (auto simp: init_def andthen_Inr init_templates_def dest!: check_options_titles)

text \<open>With \<^verbatim>\<open>titles\<close> assigned, the loop over the pending nodes does what it was written
  to do.\<close>

lemma traverse_pending_emphasis [simp]: "traverse_pending (emphasis s) = []"
  by (simp add: emphasis_def)

lemma title_suffix_no_pending: "concat (map traverse_pending (title_suffix ts d)) = []"
  by (induction ts d rule: title_suffix.induct) auto

lemma replace_pending_no_pending:
  "concat (map traverse_pending (replace_pending ts n)) = []"
  by (induction ts n rule: replace_pending.induct) (auto simp: title_suffix_no_pending)

lemma replace_all_no_pending:
  "concat (map traverse_pending (concat (map (replace_pending ts) ns))) = []"
  by (induction ns) (simp_all add: replace_pending_no_pending)

lemma title_suffix_find:
  "title_suffix ts d =
     (case find (\<lambda>(subdir, t). startswith d subdir) ts of
        None \<Rightarrow> []
      | Some (subdir, t) \<Rightarrow> [Text '' (in '', emphasis t, Text '')''])"
  by (induction ts d rule: title_suffix.induct) auto

lemma title_suffix_empty_iff:
  "title_suffix ts d = [] \<longleftrightarrow> (\<forall>(subdir, t) \<in> set ts. \<not> startswith d subdir)"
  by (induction ts d rule: title_suffix.induct) auto

lemma resolve_pending_with_titles:
  assumes "titles b = Some ts"
  shows "\<exists>t'. resolve_pending b t = ([], Inr t')
           \<and> body t' = concat (map (replace_pending ts) (body t))
           \<and> doc_pending t' = []"
proof (cases "doc_pending t = []")
  case True
  have "concat (map (replace_pending ts) ns) = ns" if "concat (map traverse_pending ns) = []"
    for ns
    using that
  proof (induction ns)
    case Nil
    then show ?case by simp
  next
    case (Cons n ns)
    have "replace_pending ts m = [m]" if "traverse_pending m = []" for m
      using that
    proof (induction ts m rule: replace_pending.induct)
      case (2 ts t a cs)
      have "concat (map (replace_pending ts) cs) = concat (map (\<lambda>c. [c]) cs)"
        using 2 by (intro arg_cong[where f = concat] map_cong) auto
      then show ?case by simp
    qed auto
    with Cons show ?case by simp
  qed
  with True show ?thesis
    by (simp add: resolve_pending_def doc_pending_def)
next
  case False
  let ?t' = "t\<lparr>body := concat (map (replace_pending ts) (body t))\<rparr>"
  have r: "resolve_pending b t = ([], Inr ?t')"
    using False assms by (simp add: resolve_pending_def)
  have b: "body ?t' = concat (map (replace_pending ts) (body t))"
    by simp
  have "doc_pending ?t' = []"
    unfolding doc_pending_def b by (rule replace_all_no_pending)
  with r b show ?thesis by blast
qed

text \<open>C5. The loop over the pending cross-references reads \<^verbatim>\<open>self.titles\<close>, which the
  builder never assigns: on a tree that still holds a pending cross-reference after the
  host's resolution, \<^verbatim>\<open>assemble_doctree\<close> raises \<^verbatim>\<open>AttributeError\<close>, and \<^verbatim>\<open>write\<close> with it.\<close>

theorem pending_xref_raises:
  "(\<exists>es b. init xref_host example_builder = (es, Inr b) \<and> titles b = None
        \<and> snd (assemble_doctree xref_host b ''intro'' False []) = Inl (AttributeError ''titles''))
   \<and> snd (write xref_host example_builder) = Inl (AttributeError ''titles'')
   \<and> docs_written (fst (write xref_host example_builder)) = []"
  by (simp add: run_defs example_defs xref_host_def xref_tree_def init_def check_options_def
      init_templates_def)

text \<open>A template exception that carries a line number is logged with the name of the
  template and the line, and raised again.\<close>

lemma render_template_with_lineno:
  assumes "render h template_name ctx = Inl err" and "lineno err = Some n"
  shows "render_template h template_name file_name ctx =
           ([Info (''writing '' @ file_name), Render template_name ctx,
             Info (''Failed to render template '' @ template_name @ '': '' @ message err
                   @ '' at '' @ str_int n)],
            Inl (TemplateError err))"
  using assms by (simp add: render_template_def)

text \<open>C7. For a template exception without a \<^verbatim>\<open>lineno\<close> attribute the handler itself
  raises: nothing naming the template or a line is logged, and what reaches the caller is
  the \<^verbatim>\<open>AttributeError\<close>.\<close>

theorem render_error_without_lineno:
  "render failing_host ''book.tex'' (start_context example_builder)
     = Inl (Exn ''no such template'' None)
   \<and> render_template failing_host ''book.tex'' ''out/book.tex'' (start_context example_builder)
     = ([Info ''writing out/book.tex'', Render ''book.tex'' (start_context example_builder)],
        Inl (AttributeError ''lineno''))
   \<and> snd (write failing_host example_builder) = Inl (AttributeError ''lineno'')"
  by (simp add: run_defs example_defs failing_host_def start_context_def)

text \<open>\<^verbatim>\<open>check_options\<close> never changes \<^verbatim>\<open>latex_toplevel_sectioning\<close>.\<close>

lemma check_options_keeps_sectioning:
  "check_options b = (es, Inr b') \<Longrightarrow>
     latex_toplevel_sectioning (config b') = latex_toplevel_sectioning (config b)"
  by (auto simp: check_options_def andthen_Inr split: if_splits option.splits)

text \<open>C8. For an invalid \<^verbatim>\<open>latex_toplevel_sectioning\<close> the warning is built from
  \<^verbatim>\<open>latex_top_sectionlevel\<close>, which is not a configuration value: \<^verbatim>\<open>check_options\<close> raises
  before it warns, and \<^verbatim>\<open>init\<close> with it. Were there such a value, the warning would print
  it, the assignment would clear it, and the invalid value would stay.\<close>

theorem invalid_sectioning_raises:
  "check_options example_builder_sectioning
     = ([], Inl (AttributeError ''No such config value: latex_top_sectionlevel''))
   \<and> init example_host example_builder_sectioning
     = ([Info ''loading builder from Pearson extension''],
        Inl (AttributeError ''No such config value: latex_top_sectionlevel''))
   \<and> check_options
       (example_builder_sectioning
          \<lparr>config := (config example_builder_sectioning)
                       \<lparr>latex_top_sectionlevel := Some (Some ''other'')\<rparr>\<rparr>)
     = ([Warn ''invalid latex_toplevel_sectioning, ignored: other''],
        Inr (example_builder_sectioning
               \<lparr>config := (config example_builder_sectioning)
                            \<lparr>latex_top_sectionlevel := Some None\<rparr>\<rparr>))
   \<and> latex_toplevel_sectioning (config example_builder_sectioning) = Some ''subsection''"
  by (simp add: check_options_def init_def init_templates_def andthen_def str_opt_def
      example_builder_sectioning_def example_defs)

section \<open>Captions and quoted names\<close>

lemma first_caption_examples:
  "first_caption [Toctree 2 (Some None), Toctree 1 (Some (Some ''Contents''))] = None"
  "first_caption [Toctree 2 None, Toctree 1 (Some (Some ''Contents''))] = Some ''Contents''"
  by simp_all

lemma repr_str_examples:
  "repr_str ''logo.png'' = [CHR 0x27] @ ''logo.png'' @ [CHR 0x27]"
  "repr_str (''it'' @ [CHR 0x27] @ ''s'') = [CHR 0x22] @ ''it'' @ [CHR 0x27] @ ''s'' @ [CHR 0x22]"
  "repr_str (''a'' @ [CHR 0x5C] @ ''b'') = [CHR 0x27] @ ''a'' @ [CHR 0x5C, CHR 0x5C] @ ''b'' @ [CHR 0x27]"
  "repr_str [CHR 0x0A, CHR 0x01] = [CHR 0x27, CHR 0x5C, CHR ''n'', CHR 0x5C] @ ''x01'' @ [CHR 0x27]"
  by (simp_all add: repr_str_def repr_char_def hex_digit_def Let_def)

section \<open>Decimal names\<close>

lemma digit_value_digit_char: "d < 10 \<Longrightarrow> digit_value (digit_char d) = d"
proof -
  assume "d < 10"
  then consider "d = 0" | "d = 1" | "d = 2" | "d = 3" | "d = 4" | "d = 5" | "d = 6" | "d = 7"
    | "d = 8" | "d = 9"
    by atomize_elim presburger
  then show ?thesis
    by cases (simp_all add: digit_value_def digit_char_def)
qed

lemma digits_value_snoc: "digits_value (s @ [c]) = 10 * digits_value s + digit_value c"
  by (simp add: digits_value_def)

lemma digits_value_str_nat: "digits_value (str_nat n) = n"
proof (induction n rule: str_nat.induct)
  case (1 n)
  show ?case
  proof (cases "n < 10")
    case True
    then show ?thesis
      by (subst str_nat.simps) (simp add: digits_value_def digit_value_digit_char)
  next
    case False
    with 1 show ?thesis
      by (subst str_nat.simps) (simp add: digits_value_snoc digit_value_digit_char)
  qed
qed

lemma digits_value_zeros: "digits_value (replicate k CHR ''0'' @ s) = digits_value s"
proof (induction k)
  case 0
  then show ?case by simp
next
  case (Suc k)
  have "foldl (\<lambda>a c. 10 * a + digit_value c) 0 (CHR ''0'' # xs)
        = foldl (\<lambda>a c. 10 * a + digit_value c) 0 xs" for xs
    by (simp add: digit_value_def)
  with Suc show ?case
    by (simp add: digits_value_def)
qed

text \<open>The formatted number reads back as the number, and has at least the asked width.\<close>

lemma digits_value_format_d: "digits_value (format_d w n) = n"
  by (simp add: format_d_def digits_value_zeros digits_value_str_nat)

lemma length_format_d: "length (format_d w n) = max w (length (str_nat n))"
  by (simp add: format_d_def)

lemma format_name_examples:
  "format_name (chap_fmt 99) 7 = ''chap07''"
  "format_name (chap_fmt 99) 99 = ''chap99''"
  "format_name (chap_fmt 100) 7 = ''chap007''"
  "format_name (chap_fmt 100) 100 = ''chap100''"
  "format_name (app_fmt 3) 1 = ''app01''"
  "format_name (app_fmt 100) 1 = ''app001''"
  by (simp_all add: chap_fmt_def app_fmt_def format_d_def str_nat.simps digit_char_def
      numeral_2_eq_2)

section \<open>A run that completes\<close>

lemma process_doc_completes:
  assumes "get_doctree h d \<noteq> None"
      and "\<forall>u i t. doc_pending (resolve_references h u i t) = []"
  shows "\<exists>es r. process_doc h b fmt n d = (es, Inr r)"
  using assms
  by (auto simp: process_doc_def assemble_doctree_def resolve_pending_def get_contentsname_def
      Let_def andthen_def split: prod.splits)

lemma write_chapters_completes:
  assumes "\<forall>d \<in> snd ` set ps. get_doctree h d \<noteq> None"
      and "\<forall>u i t. doc_pending (resolve_references h u i t) = []"
  shows "\<exists>es r. write_chapters h fmt ps (b, ctx) = (es, Inr r)"
  using assms(1)
proof (induction ps arbitrary: b ctx)
  case Nil
  then show ?case by simp
next
  case (Cons p ps)
  obtain i d where p: "p = (i, d)" by (cases p)
  with Cons.prems have "get_doctree h d \<noteq> None" by simp
  from process_doc_completes[OF this assms(2)] obtain es name b1 where
    pd: "process_doc h b fmt i d = (es, Inr (name, b1))"
    by (metis surj_pair)
  from Cons.prems have "\<forall>d \<in> snd ` set ps. get_doctree h d \<noteq> None" by simp
  from Cons.IH[OF this] obtain es' r where
    "write_chapters h fmt ps (b1, ctx\<lparr>chapter_names := chapter_names ctx @ [name]\<rparr>)
       = (es', Inr r)"
    by blast
  with pd p show ?case by (simp add: andthen_def)
qed

lemma write_appendices_completes:
  assumes "\<forall>d \<in> snd ` set ps. get_doctree h d \<noteq> None"
      and "\<forall>u i t. doc_pending (resolve_references h u i t) = []"
  shows "\<exists>es r. write_appendices h fmt ps (b, ctx) = (es, Inr r)"
  using assms(1)
proof (induction ps arbitrary: b ctx)
  case Nil
  then show ?case by simp
next
  case (Cons p ps)
  obtain i d where p: "p = (i, d)" by (cases p)
  with Cons.prems have "get_doctree h d \<noteq> None" by simp
  from process_doc_completes[OF this assms(2)] obtain es name b1 where
    pd: "process_doc h b fmt i d = (es, Inr (name, b1))"
    by (metis surj_pair)
  from Cons.prems have "\<forall>d \<in> snd ` set ps. get_doctree h d \<noteq> None" by simp
  from Cons.IH[OF this] obtain es' r where
    "write_appendices h fmt ps (b1, ctx\<lparr>appendices := appendices ctx @ [name]\<rparr>)
       = (es', Inr r)"
    by blast
  with pd p show ?case by (simp add: andthen_def)
qed

lemma snd_set_enumerate: "snd ` set (enumerate n xs) = set xs"
  by (metis set_map map_snd_enumerate)

text \<open>When the host loads every known chapter and every appendix, renders every template
  and leaves no cross-reference pending, \<^verbatim>\<open>write\<close> returns, whatever the chapter list.\<close>

lemma write_completes:
  assumes "host_serves h (all_docs h \<union> set (latex_appendices (config b)))"
      and "set (document_data b) \<subseteq> all_docs h"
  shows "\<exists>es b'. write h b = (es, Inr b')"
proof -
  let ?b1 = "b\<lparr>document_data := document_data b @ known_chapters h b\<rparr>"
  from assms have g: "\<forall>d \<in> all_docs h \<union> set (latex_appendices (config b)). get_doctree h d \<noteq> None"
    and r: "\<And>n c. \<exists>s. render h n c = Inr s"
    and p: "\<forall>u i t. doc_pending (resolve_references h u i t) = []"
    by (auto simp: host_serves_def)
  have rt: "\<exists>es s. render_template h n f c = (es, Inr s)" for n f c
    using r[of n c] by (auto simp: render_template_def)
  have "\<forall>d \<in> snd ` set (enumerate 1 (document_data ?b1)). get_doctree h d \<noteq> None"
    using g assms(2) by (auto simp: snd_set_enumerate known_chapters_def simp del: One_nat_def)
  from write_chapters_completes[OF this p] obtain e4 b4 c4 where
    wc: "write_chapters h (chap_fmt (length (document_data ?b1))) (enumerate 1 (document_data ?b1))
           (?b1, start_context ?b1) = (e4, Inr (b4, c4))"
    by (metis surj_pair)
  from write_chapters_Inr[OF wc] have c4: "config b4 = config b" by simp
  have "\<forall>d \<in> snd ` set (enumerate 1 (latex_appendices (config b4))). get_doctree h d \<noteq> None"
    using g c4 by (auto simp: snd_set_enumerate simp del: One_nat_def)
  from write_appendices_completes[OF this p] obtain e5 b5 c5 where
    wa: "write_appendices h (app_fmt (length (latex_appendices (config b4))))
           (enumerate 1 (latex_appendices (config b4))) (b4, c4) = (e5, Inr (b5, c5))"
    by (metis surj_pair)
  obtain e2 s2 where r2: "render_template h ''half-title.tex''
      (path_join (outdir ?b1) ''half-title.tex'') (start_context ?b1) = (e2, Inr s2)"
    using rt by blast
  obtain e3 s3 where r3: "render_template h ''title.tex''
      (path_join (outdir ?b1) ''title.tex'') (start_context ?b1) = (e3, Inr s3)"
    using rt by blast
  obtain e6 s6 where r6: "render_template h ''book.tex'' (path_join (outdir b5) ''book.tex'')
      (c5\<lparr>external_docs := Some (chapter_names c5 @ appendices c5)\<rparr>) = (e6, Inr s6)"
    using rt by blast
  have "\<exists>es b'. write_documents h ?b1 = (es, Inr b')"
    using wc wa r2 r3 r6
    by (simp add: write_documents_def write_pygments_stylesheet_def Let_def andthen_def
        start_context_def chap_fmt_def app_fmt_def)
  then show ?thesis
    by (auto simp: write_eq init_chapters_eq andthen_def)
qed

end
